theory Spec2Isabelle
  imports Main "HOL-Library.AList"
begin

section \<open>Strings\<close>

text \<open>
  A Python \<open>str\<close> is modelled as a list of code points below 256: a \<^typ>\<open>char\<close> stands for
  the code point \<open>of_char c\<close>, so the ASCII range and the Latin-1 supplement are covered and
  code points from 256 on are outside the model. Python compares strings code point by code
  point, a proper prefix being smaller.
\<close>

fun str_lt :: "string \<Rightarrow> string \<Rightarrow> bool" where
  "str_lt [] [] = False"
| "str_lt [] (y # ys) = True"
| "str_lt (x # xs) [] = False"
| "str_lt (x # xs) (y # ys) =
     (if (of_char x :: nat) < of_char y then True
      else if (of_char y :: nat) < of_char x then False
      else str_lt xs ys)"

definition str_gt :: "string \<Rightarrow> string \<Rightarrow> bool" where
  "str_gt a b = str_lt b a"

text \<open>\<open>s.split(sep)\<close> for a one-character separator: never the empty list.\<close>

fun py_split :: "char \<Rightarrow> string \<Rightarrow> string list" where
  "py_split sep [] = [[]]"
| "py_split sep (c # cs) =
     (if c = sep then [] # py_split sep cs
      else (case py_split sep cs of
              [] \<Rightarrow> [[c]]
            | w # ws \<Rightarrow> (c # w) # ws))"

text \<open>\<open>xs[0]\<close>: raises IndexError on the empty list, here \<open>None\<close>.\<close>

definition index0 :: "'a list \<Rightarrow> 'a option" where
  "index0 xs = (case xs of [] \<Rightarrow> None | x # _ \<Rightarrow> Some x)"

text \<open>\<open>s.split(sep)[0]\<close> as one step, for where the list is not needed.\<close>

definition cut_first :: "char \<Rightarrow> string \<Rightarrow> string" where
  "cut_first sep s = (case py_split sep s of [] \<Rightarrow> [] | w # _ \<Rightarrow> w)"

text \<open>\<open>s.replace('v', '')\<close> deletes every occurrence of the character.\<close>

definition replace_v :: "string \<Rightarrow> string" where
  "replace_v s = filter (\<lambda>c. c \<noteq> CHR ''v'') s"

text \<open>
  \<open>str.isdigit\<close>: the string is not empty and every character is a digit. Below 256 the
  digits are \<open>0\<close> to \<open>9\<close> and the superscripts two, three and one (code points 178, 179
  and 185). \<open>int\<close> accepts only the decimal digits among them and raises ValueError on
  a superscript. It also raises ValueError on a string of more than 4300 digits, leading
  zeros counted: the interpreter's limit on the conversion between integers and strings
  (\<open>sys.get_int_max_str_digits()\<close>, at its default).
\<close>

definition is_decimal :: "char \<Rightarrow> bool" where
  "is_decimal c = (48 \<le> (of_char c :: nat) \<and> (of_char c :: nat) \<le> 57)"

definition is_superscript :: "char \<Rightarrow> bool" where
  "is_superscript c = ((of_char c :: nat) = 178 \<or> (of_char c :: nat) = 179 \<or> (of_char c :: nat) = 185)"

definition isdigit :: "string \<Rightarrow> bool" where
  "isdigit s = (s \<noteq> [] \<and> list_all (\<lambda>c. is_decimal c \<or> is_superscript c) s)"

definition digits_value :: "string \<Rightarrow> int" where
  "digits_value s = foldl (\<lambda>a c. 10 * a + (int (of_char c) - 48)) 0 s"

definition int_max_str_digits :: nat where
  "int_max_str_digits = 4300"

definition py_int :: "string \<Rightarrow> int option" where
  "py_int s =
     (if s \<noteq> [] \<and> list_all is_decimal s \<and> length s \<le> int_max_str_digits
      then Some (digits_value s) else None)"

text \<open>
  \<open>str(n)\<close> of an integer. The integers of a comparison come from \<open>int\<close> or are the
  padding zero, so they have at most 4300 digits and \<open>str\<close> does not meet the limit.
\<close>

function dec :: "nat \<Rightarrow> string" where
  "dec n = (if n < 10 then [char_of (48 + n)] else dec (n div 10) @ [char_of (48 + n mod 10)])"
  by pat_completeness auto
termination
  by (relation "measure id") auto

declare dec.simps [simp del]

definition str_of_int :: "int \<Rightarrow> string" where
  "str_of_int i = (if i < 0 then CHR ''-'' # dec (nat (- i)) else dec (nat i))"

section \<open>Version comparison\<close>

text \<open>
  \<open>UpdateChecker._compare_versions\<close>. A segment is an \<open>int\<close> or a \<open>str\<close>. The body of the
  \<open>try\<close> is a computation in \<open>option\<close>: \<open>None\<close> is an exception, which the bare
  \<open>except\<close> turns into the comparison of the two raw strings.
\<close>

datatype part = PInt int | PStr string

definition to_part :: "string \<Rightarrow> part option" where
  "to_part x = (if isdigit x then map_option PInt (py_int x) else Some (PStr x))"

fun to_parts :: "string list \<Rightarrow> part list option" where
  "to_parts [] = Some []"
| "to_parts (x # xs) =
     (case to_part x of
        None \<Rightarrow> None
      | Some p \<Rightarrow> (case to_parts xs of None \<Rightarrow> None | Some ps \<Rightarrow> Some (p # ps)))"

definition str_of_part :: "part \<Rightarrow> string" where
  "str_of_part p = (case p of PInt i \<Rightarrow> str_of_int i | PStr s \<Rightarrow> s)"

definition clean :: "string \<Rightarrow> string option" where
  "clean v = (case index0 (py_split CHR ''+'' v) of
                None \<Rightarrow> None
              | Some a \<Rightarrow> index0 (py_split CHR ''-'' a))"

text \<open>
  The loop \<open>for i in range(max(len(parts1), len(parts2)))\<close>, from index \<open>i\<close> on; the
  result is the returned integer, 0 when the loop runs out.
\<close>

function compare_loop :: "part list \<Rightarrow> part list \<Rightarrow> nat \<Rightarrow> int" where
  "compare_loop parts1 parts2 i =
     (if i < max (length parts1) (length parts2) then
        (let p1 = (if i < length parts1 then parts1 ! i else PInt 0);
             p2 = (if i < length parts2 then parts2 ! i else PInt 0)
         in case (p1, p2) of
              (PInt a, PInt b) \<Rightarrow>
                (if a > b then 1 else if a < b then - 1
                 else compare_loop parts1 parts2 (Suc i))
            | _ \<Rightarrow>
                (if str_gt (str_of_part p1) (str_of_part p2) then 1
                 else if str_lt (str_of_part p1) (str_of_part p2) then - 1
                 else compare_loop parts1 parts2 (Suc i)))
      else 0)"
  by pat_completeness auto
termination
  by (relation "measure (\<lambda>(parts1, parts2, i). max (length parts1) (length parts2) - i)") auto

declare compare_loop.simps [simp del]

definition compare_try :: "string \<Rightarrow> string \<Rightarrow> int option" where
  "compare_try v1 v2 =
     (case clean v1 of None \<Rightarrow> None | Some v1_clean \<Rightarrow>
     (case clean v2 of None \<Rightarrow> None | Some v2_clean \<Rightarrow>
     (case to_parts (py_split CHR ''.'' (replace_v v1_clean)) of None \<Rightarrow> None | Some parts1 \<Rightarrow>
     (case to_parts (py_split CHR ''.'' (replace_v v2_clean)) of None \<Rightarrow> None | Some parts2 \<Rightarrow>
        Some (compare_loop parts1 parts2 0)))))"

definition compare_versions :: "string \<Rightarrow> string \<Rightarrow> int" where
  "compare_versions v1 v2 =
     (case compare_try v1 v2 of
        Some r \<Rightarrow> r
      | None \<Rightarrow> (if str_gt v1 v2 then 1 else if str_lt v1 v2 then - 1 else 0))"

subsection \<open>The comparison as the specification words it\<close>

text \<open>
  The specification's algorithm, written from its sentences: cut at the first \<open>+\<close>, then at
  the first \<open>-\<close>, strip the \<open>v\<close>, split on dots, read the numeric segments, pad the shorter
  sequence with zeros and let the first differing pair decide. The stripping of the \<open>v\<close> is
  a parameter: the specification strips a leading \<open>v\<close> only.
\<close>

datatype ordering = Less | Equal | Greater

definition cut_at :: "char \<Rightarrow> string \<Rightarrow> string" where
  "cut_at c s = takeWhile (\<lambda>x. x \<noteq> c) s"

definition strip_leading_v :: "string \<Rightarrow> string" where
  "strip_leading_v s = (case s of [] \<Rightarrow> [] | c # cs \<Rightarrow> if c = CHR ''v'' then cs else s)"

definition segments :: "(string \<Rightarrow> string) \<Rightarrow> string \<Rightarrow> part list option" where
  "segments strip v = to_parts (py_split CHR ''.'' (strip (cut_at CHR ''-'' (cut_at CHR ''+'' v))))"

definition cmp_part :: "part \<Rightarrow> part \<Rightarrow> ordering" where
  "cmp_part p q =
     (case (p, q) of
        (PInt a, PInt b) \<Rightarrow> (if b < a then Greater else if a < b then Less else Equal)
      | _ \<Rightarrow> (if str_lt (str_of_part q) (str_of_part p) then Greater
              else if str_lt (str_of_part p) (str_of_part q) then Less else Equal))"

fun cmp_padded :: "part list \<Rightarrow> part list \<Rightarrow> ordering" where
  "cmp_padded [] [] = Equal"
| "cmp_padded (p # ps) [] =
     (case cmp_part p (PInt 0) of Equal \<Rightarrow> cmp_padded ps [] | r \<Rightarrow> r)"
| "cmp_padded [] (q # qs) =
     (case cmp_part (PInt 0) q of Equal \<Rightarrow> cmp_padded [] qs | r \<Rightarrow> r)"
| "cmp_padded (p # ps) (q # qs) =
     (case cmp_part p q of Equal \<Rightarrow> cmp_padded ps qs | r \<Rightarrow> r)"

definition cmp_raw :: "string \<Rightarrow> string \<Rightarrow> ordering" where
  "cmp_raw a b = (if str_lt b a then Greater else if str_lt a b then Less else Equal)"

definition spec_compare_with :: "(string \<Rightarrow> string) \<Rightarrow> string \<Rightarrow> string \<Rightarrow> ordering" where
  "spec_compare_with strip a b =
     (case (segments strip a, segments strip b) of
        (Some ps, Some qs) \<Rightarrow> cmp_padded ps qs
      | _ \<Rightarrow> cmp_raw a b)"

definition spec_compare :: "string \<Rightarrow> string \<Rightarrow> ordering" where
  "spec_compare = spec_compare_with strip_leading_v"

text \<open>The integer the code returns for each outcome.\<close>

definition int_of_ordering :: "ordering \<Rightarrow> int" where
  "int_of_ordering r = (case r of Greater \<Rightarrow> 1 | Less \<Rightarrow> - 1 | Equal \<Rightarrow> 0)"

definition flip_ordering :: "ordering \<Rightarrow> ordering" where
  "flip_ordering r = (case r of Greater \<Rightarrow> Less | Less \<Rightarrow> Greater | Equal \<Rightarrow> Equal)"

text \<open>
  A version all of whose segments are decimal numbers that \<open>int\<close> converts (of at most
  4300 digits each), such as \<open>1.21.4\<close>.
\<close>

definition is_int_part :: "part \<Rightarrow> bool" where
  "is_int_part p = (case p of PInt _ \<Rightarrow> True | PStr _ \<Rightarrow> False)"

definition numeric_version :: "string \<Rightarrow> bool" where
  "numeric_version v =
     (case segments replace_v v of None \<Rightarrow> False | Some ps \<Rightarrow> list_all is_int_part ps)"

text \<open>
  A version of one segment with 4301 digits, \<open>1\<close> followed by 4300 zeros: the shortest
  kind of segment that \<open>int\<close> refuses.
\<close>

definition long_version :: string where
  "long_version = CHR ''1'' # replicate 4300 (CHR ''0'')"

section \<open>Registry access\<close>

text \<open>
  \<open>_fetch_json\<close> (the same body in \<open>UpdateChecker\<close> and in \<open>DownloadManager\<close>, which
  differ in the timeout they pass to \<open>urlopen\<close>). What the network does is the outcome of
  \<open>urlopen\<close> followed by \<open>json.loads\<close>: a decoded payload, an \<open>HTTPError\<close> with its
  status code, or any other exception (timeout, connection failure, malformed body) with its
  text. The function returns the payload or \<open>None\<close>, and prints a line on some failures.
\<close>

datatype 'a http_result = Payload 'a | HTTPError nat | OtherError string

datatype message = HttpErrorLine nat | FetchErrorLine string

definition fetch_json :: "'a http_result \<Rightarrow> 'a option \<times> message list" where
  "fetch_json outcome =
     (case outcome of
        Payload p \<Rightarrow> (Some p, [])
      | HTTPError code \<Rightarrow> (if code = 404 then (None, []) else (None, [HttpErrorLine code]))
      | OtherError e \<Rightarrow> (None, [FetchErrorLine e]))"

text \<open>The outcome classes of the specification: found, not found, unavailable.\<close>

definition not_found :: "'a http_result \<Rightarrow> bool" where
  "not_found outcome = (case outcome of HTTPError code \<Rightarrow> code = 404 | _ \<Rightarrow> False)"

definition unavailable :: "'a http_result \<Rightarrow> bool" where
  "unavailable outcome =
     (case outcome of Payload _ \<Rightarrow> False | HTTPError code \<Rightarrow> code \<noteq> 404 | OtherError _ \<Rightarrow> True)"

text \<open>
  The payloads, with the keys the code reads; the values have the JSON types of the
  registries' interfaces. A key read with \<open>.get\<close> is an \<open>option\<close> (\<open>None\<close>: the key
  is absent); a key read with \<open>[...]\<close> is an \<open>option\<close> too and its absence raises
  \<open>KeyError\<close>.
\<close>

datatype py_error = KeyError | IndexError | ValueError | OSError

record version_entry =
  ve_id :: "string option"
  ve_type :: "string option"

record manifest =
  versions :: "version_entry list option"

record loader_item =
  loader_version :: "string option"

record hit =
  hit_slug :: "string option"
  hit_title :: "string option"
  hit_project_id :: "string option"

record search_results =
  hits :: "hit list option"

record file_entry =
  file_url :: "string option"

record mod_version =
  version_number :: "string option"
  files :: "file_entry list option"

text \<open>
  The requests of the update checker, one constructor for each URL it builds: the version
  manifest, the loaders of a Minecraft version, the project search for a mod name, and the
  versions of a project for a Minecraft version and a loader.
\<close>

datatype request =
    GetManifest
  | GetLoaders string
  | Search string
  | GetVersions string string string

text \<open>
  The registries are remote and may answer the same request differently at different
  times: an answer depends on the requests made so far (the log), which every fetch extends.
\<close>

record registries =
  manifest_response :: "request list \<Rightarrow> manifest http_result"
  loader_response :: "request list \<Rightarrow> string \<Rightarrow> loader_item list http_result"
  search_response :: "request list \<Rightarrow> string \<Rightarrow> search_results http_result"
  versions_response :: "request list \<Rightarrow> string \<Rightarrow> string \<Rightarrow> string \<Rightarrow> mod_version list http_result"

section \<open>Configuration\<close>

text \<open>
  An entry of the \<open>mods\<close> list of \<open>config.yaml\<close>, with the keys the two programs read.
  \<open>None\<close> is an absent key; a key that is present holds a string (a number for the two
  ids). A key present with the YAML value \<open>null\<close> is outside this type.
\<close>

record mod_config =
  mod_name :: "string option"
  mod_version_field :: "string option"
  mod_source :: "string option"
  mod_slug :: "string option"
  mod_environment :: "string option"
  mod_project_id :: "nat option"
  mod_file_id :: "nat option"
  mod_download_url :: "string option"

record checker =
  mc_version :: "string option"
  fabric_version :: "string option"
  mods :: "mod_config list"

text \<open>Truth value of an optional string: \<open>None\<close> and the empty string are false.\<close>

definition truthy :: "string option \<Rightarrow> bool" where
  "truthy v = (case v of None \<Rightarrow> False | Some s \<Rightarrow> s \<noteq> [])"

text \<open>\<open>str.lower\<close> on code points below 256.\<close>

definition lower_char :: "char \<Rightarrow> char" where
  "lower_char c =
     (let n = (of_char c :: nat)
      in if (65 \<le> n \<and> n \<le> 90) \<or> (192 \<le> n \<and> n \<le> 222 \<and> n \<noteq> 215)
         then char_of (n + 32) else c)"

definition lower :: "string \<Rightarrow> string" where
  "lower s = map lower_char s"

section \<open>The compatibility search\<close>

text \<open>\<open>UpdateChecker._search_modrinth_project\<close>: the project id of a mod name.\<close>

fun exact_match :: "string \<Rightarrow> hit list \<Rightarrow> string option option" where
  "exact_match n [] = None"
| "exact_match n (h # hs) =
     (if lower (case hit_slug h of None \<Rightarrow> [] | Some s \<Rightarrow> s) = lower n then Some (hit_project_id h)
      else if lower (case hit_title h of None \<Rightarrow> [] | Some s \<Rightarrow> s) = lower n then Some (hit_project_id h)
      else exact_match n hs)"

definition search_modrinth_project ::
  "registries \<Rightarrow> request list \<Rightarrow> string \<Rightarrow> string option \<times> request list" where
  "search_modrinth_project w log n =
     (let results = fst (fetch_json (search_response w log n));
          log' = log @ [Search n]
      in case results of
           None \<Rightarrow> (None, log')
         | Some r \<Rightarrow>
             (case hits r of
                None \<Rightarrow> (None, log')
              | Some [] \<Rightarrow> (None, log')
              | Some (h # hs) \<Rightarrow>
                  (case exact_match n (h # hs) of
                     Some pid \<Rightarrow> (pid, log')
                   | None \<Rightarrow> (hit_project_id h, log'))))"

text \<open>\<open>UpdateChecker._get_mod_versions\<close>: the versions of a project, \<open>[]\<close> on a failure.\<close>

definition get_mod_versions ::
  "registries \<Rightarrow> request list \<Rightarrow> string \<Rightarrow> string \<Rightarrow> string \<Rightarrow> mod_version list \<times> request list" where
  "get_mod_versions w log pid mc loader =
     (case fst (fetch_json (versions_response w log pid mc loader)) of
        None \<Rightarrow> ([], log @ [GetVersions pid mc loader])
      | Some vs \<Rightarrow> (vs, log @ [GetVersions pid mc loader]))"

text \<open>
  \<open>UpdateChecker.check_full_compatibility\<close>. \<open>mod_details\<close> is a dictionary: an
  association list in insertion order, a later mod of the same name replacing the entry.
  \<open>latest.get('files', [{}])[0]\<close> raises IndexError when the key is present with an empty
  list. The parameter \<open>fabric_version\<close> is not read by the body.
\<close>

record mod_detail =
  detail_version :: string
  detail_url :: string
  detail_project_id :: string

definition first_file_url :: "mod_version \<Rightarrow> py_error + string" where
  "first_file_url v =
     (case files v of
        None \<Rightarrow> Inr ''N/A''
      | Some [] \<Rightarrow> Inl IndexError
      | Some (f # _) \<Rightarrow> Inr (case file_url f of None \<Rightarrow> ''N/A'' | Some u \<Rightarrow> u))"

type_synonym check_state = "(string \<times> mod_detail) list \<times> string list \<times> request list"

fun check_mods ::
  "registries \<Rightarrow> string \<Rightarrow> mod_config list \<Rightarrow> check_state \<Rightarrow> py_error + check_state" where
  "check_mods w mc [] st = Inr st"
| "check_mods w mc (m # ms) (mod_details, missing_mods, log) =
     (case mod_name m of
        None \<Rightarrow> check_mods w mc ms (mod_details, missing_mods, log)
      | Some n \<Rightarrow>
          if n = [] then check_mods w mc ms (mod_details, missing_mods, log)
          else
            (case search_modrinth_project w log n of (project_id, log1) \<Rightarrow>
               if \<not> truthy project_id
               then check_mods w mc ms (mod_details, missing_mods @ [n], log1)
               else
                 (case get_mod_versions w log1 (the project_id) mc ''fabric'' of (vs, log2) \<Rightarrow>
                    (case vs of
                       [] \<Rightarrow> check_mods w mc ms (mod_details, missing_mods @ [n], log2)
                     | latest # _ \<Rightarrow>
                         if \<not> truthy (version_number latest)
                         then check_mods w mc ms (mod_details, missing_mods @ [n], log2)
                         else
                           (case first_file_url latest of
                              Inl e \<Rightarrow> Inl e
                            | Inr u \<Rightarrow>
                                check_mods w mc ms
                                  (AList.update n
                                     \<lparr>detail_version = the (version_number latest),
                                      detail_url = u,
                                      detail_project_id = the project_id\<rparr> mod_details,
                                   missing_mods, log2))))))"

definition check_full_compatibility ::
  "registries \<Rightarrow> mod_config list \<Rightarrow> request list \<Rightarrow> string \<Rightarrow> string \<Rightarrow>
   py_error + ((bool \<times> (string \<times> mod_detail) list \<times> string list) \<times> request list)" where
  "check_full_compatibility w ms log mc_ver fabric_ver =
     (case check_mods w mc_ver ms ([], [], log) of
        Inl e \<Rightarrow> Inl e
      | Inr (mod_details, missing_mods, log') \<Rightarrow>
          Inr ((length missing_mods = 0, mod_details, missing_mods), log'))"

text \<open>
  \<open>UpdateChecker.find_compatible_updates\<close>. First the releases listed before the current
  version in the manifest; \<open>v['id']\<close> and \<open>v['type']\<close> raise KeyError on an entry without
  the key.
\<close>

fun newer_releases :: "string option \<Rightarrow> version_entry list \<Rightarrow> py_error + string list" where
  "newer_releases cur [] = Inr []"
| "newer_releases cur (v # vs) =
     (case ve_id v of
        None \<Rightarrow> Inl KeyError
      | Some i \<Rightarrow>
          if Some i = cur then Inr []
          else (case ve_type v of
                  None \<Rightarrow> Inl KeyError
                | Some t \<Rightarrow>
                    (case newer_releases cur vs of
                       Inl e \<Rightarrow> Inl e
                     | Inr r \<Rightarrow> Inr (if t = ''release'' then i # r else r))))"

text \<open>The loader versions of a loader payload: the items with a non-empty version.\<close>

fun fabric_versions_of :: "loader_item list \<Rightarrow> string list" where
  "fabric_versions_of [] = []"
| "fabric_versions_of (item # items) =
     (if truthy (loader_version item) then the (loader_version item) # fabric_versions_of items
      else fabric_versions_of items)"

text \<open>\<open>xs.index(x)\<close>: the first position of \<open>x\<close>, ValueError when it does not occur.\<close>

fun index_of :: "'a \<Rightarrow> 'a list \<Rightarrow> py_error + nat" where
  "index_of x [] = Inl ValueError"
| "index_of x (y # ys) =
     (if x = y then Inr 0
      else (case index_of x ys of Inl e \<Rightarrow> Inl e | Inr i \<Rightarrow> Inr (Suc i)))"

record compat_result =
  minecraft_current :: "string option"
  minecraft_new :: string
  fabric_current :: "string option"
  fabric_new :: string
  result_mods :: "(string \<times> mod_detail) list"
  mc_versions_tested :: nat
  fabric_versions_tested :: nat

text \<open>
  The inner loop over the loader versions of one Minecraft version: the first loader
  version for which every mod resolves, with the details found, or \<open>None\<close> when the loop
  runs out.
\<close>

fun test_fabric_versions ::
  "registries \<Rightarrow> mod_config list \<Rightarrow> string \<Rightarrow> string list \<Rightarrow> request list \<Rightarrow>
   py_error + ((string \<times> (string \<times> mod_detail) list) option \<times> request list)" where
  "test_fabric_versions w ms mc_ver [] log = Inr (None, log)"
| "test_fabric_versions w ms mc_ver (fabric_ver # rest) log =
     (case check_full_compatibility w ms log mc_ver fabric_ver of
        Inl e \<Rightarrow> Inl e
      | Inr ((compatible, mod_details, missing_mods), log') \<Rightarrow>
          if compatible then Inr (Some (fabric_ver, mod_details), log')
          else test_fabric_versions w ms mc_ver rest log')"

text \<open>
  The outer loop over the newer Minecraft versions. Every path through its body ends in
  \<open>break\<close> or \<open>return\<close>, so the versions after the first are not reached; \<open>None\<close> is the
  \<open>return None\<close> after the loop.
\<close>

fun test_mc_versions ::
  "registries \<Rightarrow> checker \<Rightarrow> string list \<Rightarrow> string list \<Rightarrow> request list \<Rightarrow>
   py_error + (compat_result option \<times> request list)" where
  "test_mc_versions w c newer_mc_versions [] log = Inr (None, log)"
| "test_mc_versions w c newer_mc_versions (mc_ver # rest) log =
     (let loader_data = fst (fetch_json (loader_response w log mc_ver));
          log1 = log @ [GetLoaders mc_ver]
      in case loader_data of
           None \<Rightarrow> Inr (None, log1)
         | Some [] \<Rightarrow> Inr (None, log1)
         | Some (item # items) \<Rightarrow>
             (let fabric_versions = fabric_versions_of (item # items)
              in if fabric_versions = [] then Inr (None, log1)
                 else
                   (case test_fabric_versions w (mods c) mc_ver fabric_versions log1 of
                      Inl e \<Rightarrow> Inl e
                    | Inr (None, log2) \<Rightarrow> Inr (None, log2)
                    | Inr (Some (fabric_ver, mod_details), log2) \<Rightarrow>
                        (case index_of mc_ver newer_mc_versions of
                           Inl e \<Rightarrow> Inl e
                         | Inr i \<Rightarrow>
                             (case index_of fabric_ver fabric_versions of
                                Inl e \<Rightarrow> Inl e
                              | Inr j \<Rightarrow>
                                  Inr (Some \<lparr>minecraft_current = mc_version c,
                                             minecraft_new = mc_ver,
                                             fabric_current = fabric_version c,
                                             fabric_new = fabric_ver,
                                             result_mods = mod_details,
                                             mc_versions_tested = i + 1,
                                             fabric_versions_tested = j + 1\<rparr>, log2))))))"

definition find_compatible_updates ::
  "registries \<Rightarrow> checker \<Rightarrow> request list \<Rightarrow> py_error + (compat_result option \<times> request list)" where
  "find_compatible_updates w c log =
     (let m = fst (fetch_json (manifest_response w log));
          log1 = log @ [GetManifest]
      in case m of
           None \<Rightarrow> Inr (None, log1)
         | Some man \<Rightarrow>
             (case versions man of
                None \<Rightarrow> Inr (None, log1)
              | Some vs \<Rightarrow>
                  (case newer_releases (mc_version c) vs of
                     Inl e \<Rightarrow> Inl e
                   | Inr newer_mc_versions \<Rightarrow>
                       if newer_mc_versions = [] then Inr (None, log1)
                       else test_mc_versions w c newer_mc_versions newer_mc_versions log1)))"

text \<open>
  The loader candidates of an engine version, as the specification counts them: none
  when the fetch gives nothing, otherwise the versions extracted from the payload.
\<close>

definition loader_candidates :: "loader_item list http_result \<Rightarrow> string list" where
  "loader_candidates outcome =
     (case fst (fetch_json outcome) of None \<Rightarrow> [] | Some items \<Rightarrow> fabric_versions_of items)"

text \<open>The engine candidates: the releases newer than the current version, if the manifest arrives.\<close>

definition engine_candidates :: "checker \<Rightarrow> manifest http_result \<Rightarrow> py_error + string list" where
  "engine_candidates c outcome =
     (case fst (fetch_json outcome) of
        None \<Rightarrow> Inr []
      | Some man \<Rightarrow>
          (case versions man of None \<Rightarrow> Inr [] | Some vs \<Rightarrow> newer_releases (mc_version c) vs))"

text \<open>The requests that the check of the mods makes.\<close>

definition mod_request :: "request \<Rightarrow> bool" where
  "mod_request q = (case q of Search _ \<Rightarrow> True | GetVersions _ _ _ \<Rightarrow> True | _ \<Rightarrow> False)"

subsection \<open>Example registries\<close>

text \<open>
  A manifest with two releases and a snapshot before the configured version 1.21.3, and
  registries over it: one where the newest release has no loader yet, one where the mod
  registry starts answering between the first and the second loader version under test,
  and one that always answers.
\<close>

definition example_manifest :: manifest where
  "example_manifest =
     \<lparr>versions = Some
        [\<lparr>ve_id = Some ''1.21.5'', ve_type = Some ''release''\<rparr>,
         \<lparr>ve_id = Some ''25w14a'', ve_type = Some ''snapshot''\<rparr>,
         \<lparr>ve_id = Some ''1.21.4'', ve_type = Some ''release''\<rparr>,
         \<lparr>ve_id = Some ''1.21.3'', ve_type = Some ''release''\<rparr>,
         \<lparr>ve_id = Some ''1.21.2'', ve_type = Some ''release''\<rparr>]\<rparr>"

definition example_hits :: search_results where
  "example_hits =
     \<lparr>hits = Some [\<lparr>hit_slug = Some ''lithium'', hit_title = Some ''Lithium'',
                    hit_project_id = Some ''gvQqBUqZ''\<rparr>]\<rparr>"

definition example_versions :: "mod_version list" where
  "example_versions =
     [\<lparr>version_number = Some ''mc1.21.5-0.16.2'',
       files = Some [\<lparr>file_url = Some ''https://cdn.modrinth.com/data/gvQqBUqZ/lithium.jar''\<rparr>]\<rparr>]"

definition steady_registries :: registries where
  "steady_registries =
     \<lparr>manifest_response = (\<lambda>log. Payload example_manifest),
      loader_response = (\<lambda>log mc. Payload [\<lparr>loader_version = Some ''0.16.14''\<rparr>,
                                           \<lparr>loader_version = Some ''0.16.13''\<rparr>]),
      search_response = (\<lambda>log n. Payload example_hits),
      versions_response = (\<lambda>log pid mc loader. Payload example_versions)\<rparr>"

definition no_loader_registries :: registries where
  "no_loader_registries =
     steady_registries
       \<lparr>loader_response :=
          (\<lambda>log mc. if mc = ''1.21.5'' then HTTPError 404
                     else Payload [\<lparr>loader_version = Some ''0.16.14''\<rparr>])\<rparr>"

definition late_registries :: registries where
  "late_registries =
     steady_registries
       \<lparr>versions_response :=
          (\<lambda>log pid mc loader. if length log < 5 then Payload [] else Payload example_versions)\<rparr>"

definition blank_mod :: mod_config where
  "blank_mod =
     \<lparr>mod_name = None, mod_version_field = None, mod_source = None, mod_slug = None,
      mod_environment = None, mod_project_id = None, mod_file_id = None,
      mod_download_url = None\<rparr>"

definition example_checker :: checker where
  "example_checker =
     \<lparr>mc_version = Some ''1.21.3'', fabric_version = Some ''0.16.9'',
      mods = [blank_mod\<lparr>mod_name := Some ''lithium''\<rparr>]\<rparr>"

definition unnamed_checker :: checker where
  "unnamed_checker =
     \<lparr>mc_version = Some ''1.21.3'', fabric_version = Some ''0.16.9'',
      mods = [blank_mod\<lparr>mod_name := Some '''', mod_slug := Some ''lithium''\<rparr>]\<rparr>"

section \<open>The download plan\<close>

text \<open>
  \<open>os.path.join\<close> of two components, as on POSIX: an absolute second component replaces
  the first, and a separator is put between them unless the first is empty or ends in one.
\<close>

definition path_join :: "string \<Rightarrow> string \<Rightarrow> string" where
  "path_join a b =
     (if b \<noteq> [] \<and> hd b = CHR ''/'' then b
      else if a = [] \<or> last a = CHR ''/'' then a @ b
      else a @ ''/'' @ b)"

text \<open>
  An item of the plan: the dictionary that \<open>build_download_list\<close> writes for a key. The
  keys \<open>type\<close>, \<open>name\<close>, \<open>version\<close>, \<open>url\<close>, \<open>filename\<close> and \<open>target_dir\<close> are written for
  every item; \<open>destination\<close> for the server and the loader; \<open>environment\<close>,
  \<open>destinations\<close> and \<open>slug\<close> for a mod. An absent key is \<open>None\<close>; \<open>name\<close>, \<open>version\<close>
  and \<open>slug\<close> may also hold Python's \<open>None\<close>.
\<close>

record plan_item =
  item_type :: "string option"
  item_name :: "string option"
  item_version :: "string option"
  item_url :: string
  item_filename :: string
  item_target_dir :: string
  item_destination :: "string option"
  item_environment :: "string option"
  item_destinations :: "string list option"
  item_slug :: "string option"

type_synonym plan = "(string \<times> plan_item) list"

text \<open>
  The sections \<open>minecraft\<close> and \<open>fabric\<close> of \<open>config.yaml\<close>. The code tests the truth
  of the mapping (\<open>if minecraft_config:\<close>), so \<open>None\<close> stands for an absent key and for
  an empty mapping alike, and \<open>Some\<close> for a mapping that is not empty, of which the keys
  \<open>version\<close> and \<open>source\<close> are read.
\<close>

record axis_config =
  axis_version :: "string option"
  axis_source :: "string option"

record manager_config =
  cfg_minecraft :: "axis_config option"
  cfg_fabric :: "axis_config option"
  cfg_mods :: "mod_config list"

text \<open>
  What \<open>build_download_list\<close> takes from outside: the \<open>target_dir\<close> of a source in
  \<open>source_mappings.yaml\<close> (\<open>None\<close>: the lookup raises KeyError), and the results of the
  resolvers that query the registries or format a URL template, each of which returns a
  tuple or \<open>None\<close>, or raises.
\<close>

record resolvers =
  target_dir_of :: "string \<Rightarrow> string option"
  resolve_minecraft_url :: "string option \<Rightarrow> py_error + (string \<times> string) option"
  resolve_fabric_url :: "string option \<Rightarrow> string option \<Rightarrow> py_error + (string \<times> string) option"
  resolve_modrinth_url ::
    "string option \<Rightarrow> string \<Rightarrow> string option \<Rightarrow> py_error + (string \<times> string \<times> string) option"
  resolve_curseforge_url ::
    "string option \<Rightarrow> string \<Rightarrow> nat \<Rightarrow> nat option \<Rightarrow> py_error + (string \<times> string) option"

text \<open>\<open>DownloadManager._resolve_custom_url\<close>: the URL of the entry and a file name for it.\<close>

definition endswith :: "string \<Rightarrow> string \<Rightarrow> bool" where
  "endswith s suffix = (length suffix \<le> length s \<and> drop (length s - length suffix) s = suffix)"

definition resolve_custom_url :: "mod_config \<Rightarrow> (string \<times> string) option" where
  "resolve_custom_url m =
     (if \<not> truthy (mod_download_url m) then None
      else
        (let download_url = the (mod_download_url m);
             filename = cut_first CHR ''?'' (last (py_split CHR ''/'' download_url))
         in if \<not> endswith filename ''.jar''
            then Some (download_url, (case mod_name m of None \<Rightarrow> ''mod'' | Some n \<Rightarrow> n) @ ''.jar'')
            else Some (download_url, filename)))"

text \<open>The destinations of a mod by its environment.\<close>

definition destinations_for :: "string \<Rightarrow> string \<Rightarrow> string \<Rightarrow> string list" where
  "destinations_for environment base_target_dir filename =
     (if environment \<in> set [''server'', ''both''] then [path_join base_target_dir filename] else [])
     @ (if environment \<in> set [''client'', ''both'']
        then [path_join (path_join base_target_dir ''client'') filename] else [])"

text \<open>\<open>str(x)\<close> of an optional string, in a formatted key.\<close>

definition str_of_opt :: "string option \<Rightarrow> string" where
  "str_of_opt v = (case v of None \<Rightarrow> ''None'' | Some s \<Rightarrow> s)"

text \<open>
  The body of the loop over the mods: what one mod does to the dictionary \<open>downloads\<close>.
  First the resolution by source: \<open>None\<close> for \<open>continue\<close>, otherwise the result and the slug.
\<close>

definition resolve_mod ::
  "resolvers \<Rightarrow> mod_config \<Rightarrow> string \<Rightarrow> string \<Rightarrow>
   py_error + ((string \<times> string) option \<times> string option) option" where
  "resolve_mod rs m version source =
     (if source = ''modrinth'' then
        (case resolve_modrinth_url rs (mod_name m) version (mod_slug m) of
           Inl e \<Rightarrow> Inl e
         | Inr None \<Rightarrow> Inr (Some (None, None))
         | Inr (Some (url, filename, resolved_slug)) \<Rightarrow>
             Inr (Some (Some (url, filename), Some resolved_slug)))
      else if source = ''curseforge'' then
        (case mod_project_id m of
           None \<Rightarrow> Inr None
         | Some project_id \<Rightarrow>
             if project_id = 0 then Inr None
             else (case resolve_curseforge_url rs (mod_name m) version project_id (mod_file_id m) of
                     Inl e \<Rightarrow> Inl e
                   | Inr None \<Rightarrow> Inr (Some (None, None))
                   | Inr (Some (url, filename)) \<Rightarrow>
                       Inr (Some (Some (url, filename), Some (''cf_'' @ dec project_id)))))
      else if source = ''custom'' then Inr (Some (resolve_custom_url m, None))
      else Inr (Some (None, None)))"

definition build_mod :: "resolvers \<Rightarrow> mod_config \<Rightarrow> plan \<Rightarrow> py_error + plan" where
  "build_mod rs m downloads =
     (let version = mod_version_field m;
          source = (case mod_source m of None \<Rightarrow> ''modrinth'' | Some s \<Rightarrow> s);
          environment = (case mod_environment m of None \<Rightarrow> ''both'' | Some e \<Rightarrow> e)
      in if \<not> truthy version then Inr downloads
         else
           (case resolve_mod rs m (the version) source of
              Inl e \<Rightarrow> Inl e
            | Inr None \<Rightarrow> Inr downloads
            | Inr (Some (None, resolved_slug)) \<Rightarrow> Inr downloads
            | Inr (Some (Some (url, filename), resolved_slug)) \<Rightarrow>
                (case target_dir_of rs source of
                   None \<Rightarrow> Inl KeyError
                 | Some base_target_dir \<Rightarrow>
                     Inr (AList.update (''mod_'' @ str_of_opt (mod_name m))
                            \<lparr>item_type = Some ''mod'',
                             item_name = mod_name m,
                             item_version = version,
                             item_url = url,
                             item_filename = filename,
                             item_target_dir = base_target_dir,
                             item_destination = None,
                             item_environment = Some environment,
                             item_destinations =
                               Some (destinations_for environment base_target_dir filename),
                             item_slug = resolved_slug\<rparr> downloads))))"

fun build_mods :: "resolvers \<Rightarrow> mod_config list \<Rightarrow> plan \<Rightarrow> py_error + plan" where
  "build_mods rs [] downloads = Inr downloads"
| "build_mods rs (m # ms) downloads =
     (case build_mod rs m downloads of
        Inl e \<Rightarrow> Inl e
      | Inr downloads' \<Rightarrow> build_mods rs ms downloads')"

text \<open>The entry of the server or of the loader, from its resolved URL.\<close>

definition axis_item ::
  "resolvers \<Rightarrow> string \<Rightarrow> string \<Rightarrow> string \<Rightarrow> string option \<Rightarrow> string \<Rightarrow> string \<Rightarrow>
   plan \<Rightarrow> py_error + plan" where
  "axis_item rs key display source version url filename downloads =
     (case target_dir_of rs source of
        None \<Rightarrow> Inl KeyError
      | Some target_dir \<Rightarrow>
          Inr (AList.update key
                 \<lparr>item_type = Some key,
                  item_name = Some display,
                  item_version = version,
                  item_url = url,
                  item_filename = filename,
                  item_target_dir = target_dir,
                  item_destination = Some (path_join target_dir filename),
                  item_environment = None,
                  item_destinations = None,
                  item_slug = None\<rparr> downloads))"

definition build_minecraft :: "resolvers \<Rightarrow> manager_config \<Rightarrow> plan \<Rightarrow> py_error + plan" where
  "build_minecraft rs cfg downloads =
     (case cfg_minecraft cfg of
        None \<Rightarrow> Inr downloads
      | Some minecraft_config \<Rightarrow>
          (case resolve_minecraft_url rs (axis_version minecraft_config) of
             Inl e \<Rightarrow> Inl e
           | Inr None \<Rightarrow> Inr downloads
           | Inr (Some (url, filename)) \<Rightarrow>
               axis_item rs ''minecraft'' ''Minecraft Server''
                 (case axis_source minecraft_config of None \<Rightarrow> ''mojang'' | Some s \<Rightarrow> s)
                 (axis_version minecraft_config) url filename downloads))"

definition build_fabric :: "resolvers \<Rightarrow> manager_config \<Rightarrow> plan \<Rightarrow> py_error + plan" where
  "build_fabric rs cfg downloads =
     (case cfg_fabric cfg of
        None \<Rightarrow> Inr downloads
      | Some fabric_config \<Rightarrow>
          (case resolve_fabric_url rs
                  (case cfg_minecraft cfg of None \<Rightarrow> None | Some mc \<Rightarrow> axis_version mc)
                  (axis_version fabric_config) of
             Inl e \<Rightarrow> Inl e
           | Inr None \<Rightarrow> Inr downloads
           | Inr (Some (url, filename)) \<Rightarrow>
               axis_item rs ''fabric'' ''Fabric Loader''
                 (case axis_source fabric_config of None \<Rightarrow> ''fabric'' | Some s \<Rightarrow> s)
                 (axis_version fabric_config) url filename downloads))"

definition build_download_list :: "resolvers \<Rightarrow> manager_config \<Rightarrow> py_error + plan" where
  "build_download_list rs cfg =
     (case build_minecraft rs cfg [] of
        Inl e \<Rightarrow> Inl e
      | Inr d1 \<Rightarrow>
          (case build_fabric rs cfg d1 of
             Inl e \<Rightarrow> Inl e
           | Inr d2 \<Rightarrow> build_mods rs (cfg_mods cfg) d2))"

text \<open>
  The shape of the mod items that \<open>build_download_list\<close> writes: an environment, and the
  destinations computed from it, the target directory and the file name.
\<close>

definition mod_item_shape :: "plan_item \<Rightarrow> bool" where
  "mod_item_shape item =
     (item_type item = Some ''mod'' \<longrightarrow>
        (\<exists>e. item_environment item = Some e
           \<and> item_destinations item =
               Some (destinations_for e (item_target_dir item) (item_filename item))))"

section \<open>Executing the plan\<close>

text \<open>
  The files on disk are an association list from paths to contents; a path exists when it
  has an entry. A transfer of a URL to a destination has one of four courses: the whole
  body arrives; the body ends early without an exception (the connection is closed before
  the whole body arrived, and \<open>copyfileobj\<close> reads to the end of what came); an exception
  is raised after the destination was opened and a part was written (a transport error
  or a timeout); or an exception is raised before the destination is opened (no
  directory, no connection, an HTTP error, a timeout). Which of them happens may depend
  on the transfers made before. Removing an existing file and copying to a path can fail,
  as the environment decides.
\<close>

type_synonym filesystem = "(string \<times> string) list"

definition path_exists :: "filesystem \<Rightarrow> string \<Rightarrow> bool" where
  "path_exists fs p = (map_of fs p \<noteq> None)"

datatype transfer = Complete string | Truncated string | Partial string | Failed

record environment =
  transfer_of :: "(string \<times> string) list \<Rightarrow> string \<Rightarrow> string \<Rightarrow> transfer"
  removable :: "string \<Rightarrow> bool"
  copyable :: "string \<Rightarrow> bool"

text \<open>
  The state of a run of the download manager: the files, the calls of \<open>_download_file\<close>
  so far (URL and destination), the two counters and the cache.
\<close>

record run_state =
  disk :: filesystem
  fetched :: "(string \<times> string) list"
  success_count :: nat
  fail_count :: nat
  cache :: "(string option \<times> plan) option"

text \<open>
  \<open>DownloadManager._download_file\<close>. The handler of the \<open>try\<close> removes the destination
  if it exists and returns \<open>False\<close>; an exception of \<open>os.remove\<close> inside the handler leaves
  the method. Without an exception the method returns \<open>True\<close>, whether the body is whole
  or not: the length of what was written is printed, not checked.
\<close>

definition download_handler ::
  "environment \<Rightarrow> string \<Rightarrow> run_state \<Rightarrow> py_error + (bool \<times> run_state)" where
  "download_handler env destination st =
     (if path_exists (disk st) destination then
        (if removable env destination
         then Inr (False, st\<lparr>disk := AList.delete destination (disk st)\<rparr>)
         else Inl OSError)
      else Inr (False, st))"

definition download_file ::
  "environment \<Rightarrow> string \<Rightarrow> string \<Rightarrow> run_state \<Rightarrow> py_error + (bool \<times> run_state)" where
  "download_file env url destination st =
     (let st1 = st\<lparr>fetched := fetched st @ [(url, destination)]\<rparr>
      in case transfer_of env (fetched st) url destination of
           Complete content \<Rightarrow>
             Inr (True, st1\<lparr>disk := AList.update destination content (disk st1)\<rparr>)
         | Truncated content \<Rightarrow>
             Inr (True, st1\<lparr>disk := AList.update destination content (disk st1)\<rparr>)
         | Partial content \<Rightarrow>
             download_handler env destination
               (st1\<lparr>disk := AList.update destination content (disk st1)\<rparr>)
         | Failed \<Rightarrow> download_handler env destination st1)"

text \<open>The removal of the old versions of a mod: a failing removal is a warning.\<close>

fun remove_old :: "environment \<Rightarrow> string list \<Rightarrow> filesystem \<Rightarrow> filesystem" where
  "remove_old env [] fs = fs"
| "remove_old env (dest # dests) fs =
     remove_old env dests
       (if path_exists fs dest \<and> removable env dest then AList.delete dest fs else fs)"

text \<open>The copies to the further destinations: a failing copy is a warning.\<close>

fun copy_to :: "environment \<Rightarrow> string \<Rightarrow> string list \<Rightarrow> filesystem \<Rightarrow> filesystem" where
  "copy_to env first_dest [] fs = fs"
| "copy_to env first_dest (dest # dests) fs =
     copy_to env first_dest dests
       (case map_of fs first_dest of
          None \<Rightarrow> fs
        | Some content \<Rightarrow> if copyable env dest then AList.update dest content fs else fs)"

text \<open>The body of the loop of \<open>download_all\<close> for one item of the plan.\<close>

definition download_item :: "environment \<Rightarrow> plan_item \<Rightarrow> run_state \<Rightarrow> py_error + run_state" where
  "download_item env item st =
     (if item_type item = Some ''mod'' \<and> item_destinations item \<noteq> None then
        (let destinations = the (item_destinations item);
             slug = item_slug item;
             st1 = (if truthy slug then st\<lparr>disk := remove_old env destinations (disk st)\<rparr> else st)
         in case destinations of
              [] \<Rightarrow> Inl IndexError
            | first_dest # others \<Rightarrow>
                (case download_file env (item_url item) first_dest st1 of
                   Inl e \<Rightarrow> Inl e
                 | Inr (ok, st2) \<Rightarrow>
                     if ok
                     then Inr (st2\<lparr>disk := copy_to env first_dest others (disk st2),
                                   success_count := success_count st2 + 1\<rparr>)
                     else Inr (st2\<lparr>fail_count := fail_count st2 + 1\<rparr>)))
      else
        (case item_destination item of
           None \<Rightarrow> Inr (st\<lparr>fail_count := fail_count st + 1\<rparr>)
         | Some destination \<Rightarrow>
             if destination = [] then Inr (st\<lparr>fail_count := fail_count st + 1\<rparr>)
             else if path_exists (disk st) destination
             then Inr (st\<lparr>success_count := success_count st + 1\<rparr>)
             else
               (case download_file env (item_url item) destination st of
                  Inl e \<Rightarrow> Inl e
                | Inr (ok, st2) \<Rightarrow>
                    if ok then Inr (st2\<lparr>success_count := success_count st2 + 1\<rparr>)
                    else Inr (st2\<lparr>fail_count := fail_count st2 + 1\<rparr>))))"

fun download_items :: "environment \<Rightarrow> plan \<Rightarrow> run_state \<Rightarrow> py_error + run_state" where
  "download_items env [] st = Inr st"
| "download_items env ((key, item) # rest) st =
     (case download_item env item st of
        Inl e \<Rightarrow> Inl e
      | Inr st' \<Rightarrow> download_items env rest st')"

text \<open>
  \<open>DownloadManager.download_all\<close> on a given plan: nothing for the empty plan, otherwise
  the loop with the counters at zero and then the plan stored as the cache.
\<close>

definition download_all ::
  "environment \<Rightarrow> string option \<Rightarrow> plan \<Rightarrow> run_state \<Rightarrow> py_error + run_state" where
  "download_all env minecraft_version download_list st =
     (if download_list = [] then Inr st
      else
        (case download_items env download_list (st\<lparr>success_count := 0, fail_count := 0\<rparr>) of
           Inl e \<Rightarrow> Inl e
         | Inr st' \<Rightarrow> Inr (st'\<lparr>cache := Some (minecraft_version, download_list)\<rparr>)))"

subsection \<open>Example configuration and environment\<close>

text \<open>
  Four mods: one without an environment, one for the client, one for the server, one
  whose environment is misspelt; resolvers that find each of them; a disk that already holds the server jar and
  one mod; and a network that delivers, ends the body early, breaks off, or refuses, by URL.
\<close>

definition example_resolvers :: resolvers where
  "example_resolvers =
     \<lparr>target_dir_of = (\<lambda>source. if source = ''mojang'' \<or> source = ''fabric'' then Some ''server''
                                  else if source = ''modrinth'' then Some ''server/mods'' else None),
      resolve_minecraft_url = (\<lambda>version. Inr (Some (''https://piston-data.mojang.com/server.jar'', ''server.jar''))),
      resolve_fabric_url = (\<lambda>mc version. Inr (Some (''https://meta.fabricmc.net/fabric.jar'', ''fabric-server-launch.jar''))),
      resolve_modrinth_url =
        (\<lambda>name version slug. Inr (Some (''https://cdn.modrinth.com/'' @ str_of_opt name @ ''.jar'',
                                         str_of_opt name @ ''.jar'', str_of_opt name))),
      resolve_curseforge_url = (\<lambda>name version project_id file_id. Inr None)\<rparr>"

definition example_config :: manager_config where
  "example_config =
     \<lparr>cfg_minecraft = Some \<lparr>axis_version = Some ''1.21.4'', axis_source = None\<rparr>,
      cfg_fabric = Some \<lparr>axis_version = Some ''0.16.9'', axis_source = None\<rparr>,
      cfg_mods =
        [blank_mod\<lparr>mod_name := Some ''lithium'', mod_version_field := Some ''0.14.3''\<rparr>,
         blank_mod\<lparr>mod_name := Some ''sodium'', mod_version_field := Some ''0.6.5'',
                   mod_environment := Some ''client''\<rparr>,
         blank_mod\<lparr>mod_name := Some ''ferritecore'', mod_version_field := Some ''7.1.1'',
                   mod_environment := Some ''server''\<rparr>,
         blank_mod\<lparr>mod_name := Some ''krypton'', mod_version_field := Some ''0.2.8'',
                   mod_environment := Some ''servre''\<rparr>]\<rparr>"

definition lithium_item :: plan_item where
  "lithium_item =
     \<lparr>item_type = Some ''mod'', item_name = Some ''lithium'', item_version = Some ''0.14.3'',
      item_url = ''https://cdn.modrinth.com/lithium.jar'', item_filename = ''lithium.jar'',
      item_target_dir = ''server/mods'', item_destination = None,
      item_environment = Some ''both'',
      item_destinations = Some [''server/mods/lithium.jar'', ''server/mods/client/lithium.jar''],
      item_slug = Some ''lithium''\<rparr>"

definition server_item :: plan_item where
  "server_item =
     \<lparr>item_type = Some ''minecraft'', item_name = Some ''Minecraft Server'',
      item_version = Some ''1.21.4'', item_url = ''https://piston-data.mojang.com/server.jar'',
      item_filename = ''server.jar'', item_target_dir = ''server'',
      item_destination = Some ''server/server.jar'', item_environment = None,
      item_destinations = None, item_slug = None\<rparr>"

definition example_environment :: environment where
  "example_environment =
     \<lparr>transfer_of = (\<lambda>before url destination. if url = ''https://cdn.modrinth.com/lithium.jar'' then Complete ''new lithium''
                            else if url = ''https://cdn.modrinth.com/sodium.jar'' then Partial ''PK''
                            else if url = ''https://cdn.modrinth.com/ferritecore.jar'' then Truncated ''PK''
                            else Failed),
      removable = (\<lambda>path. True),
      copyable = (\<lambda>path. True)\<rparr>"

definition example_state :: run_state where
  "example_state =
     \<lparr>disk = [(''server/server.jar'', ''server bytes''), (''server/mods/lithium.jar'', ''old lithium'')],
      fetched = [], success_count = 0, fail_count = 0, cache = None\<rparr>"

definition sodium_item :: plan_item where
  "sodium_item =
     \<lparr>item_type = Some ''mod'', item_name = Some ''sodium'', item_version = Some ''0.6.5'',
      item_url = ''https://cdn.modrinth.com/sodium.jar'', item_filename = ''sodium.jar'',
      item_target_dir = ''server/mods'', item_destination = None,
      item_environment = Some ''client'',
      item_destinations = Some [''server/mods/client/sodium.jar''],
      item_slug = Some ''sodium''\<rparr>"

definition ferritecore_item :: plan_item where
  "ferritecore_item =
     \<lparr>item_type = Some ''mod'', item_name = Some ''ferritecore'', item_version = Some ''7.1.1'',
      item_url = ''https://cdn.modrinth.com/ferritecore.jar'', item_filename = ''ferritecore.jar'',
      item_target_dir = ''server/mods'', item_destination = None,
      item_environment = Some ''server'',
      item_destinations = Some [''server/mods/ferritecore.jar''],
      item_slug = Some ''ferritecore''\<rparr>"

definition krypton_item :: plan_item where
  "krypton_item =
     \<lparr>item_type = Some ''mod'', item_name = Some ''krypton'', item_version = Some ''0.2.8'',
      item_url = ''https://cdn.modrinth.com/krypton.jar'', item_filename = ''krypton.jar'',
      item_target_dir = ''server/mods'', item_destination = None,
      item_environment = Some ''servre'',
      item_destinations = Some [],
      item_slug = Some ''krypton''\<rparr>"

definition example_plan :: plan where
  "example_plan =
     [(''minecraft'', server_item),
      (''fabric'',
       \<lparr>item_type = Some ''fabric'', item_name = Some ''Fabric Loader'',
        item_version = Some ''0.16.9'', item_url = ''https://meta.fabricmc.net/fabric.jar'',
        item_filename = ''fabric-server-launch.jar'', item_target_dir = ''server'',
        item_destination = Some ''server/fabric-server-launch.jar'', item_environment = None,
        item_destinations = None, item_slug = None\<rparr>),
      (''mod_lithium'', lithium_item),
      (''mod_sodium'', sodium_item),
      (''mod_ferritecore'', ferritecore_item),
      (''mod_krypton'', krypton_item)]"

section \<open>Properties of the version comparison\<close>

subsection \<open>Strings and splitting\<close>

lemma py_split_cases: "\<exists>w ws. py_split c s = w # ws"
  by (induction s) (auto split: list.splits)

lemma index0_py_split: "index0 (py_split c s) = Some (cut_at c s)"
proof (induction s)
  case Nil
  show ?case by (simp add: index0_def cut_at_def)
next
  case (Cons x xs)
  obtain w ws where w: "py_split c xs = w # ws" using py_split_cases by blast
  with Cons show ?case by (simp add: index0_def cut_at_def)
qed

lemma clean_eq: "clean v = Some (cut_at CHR ''-'' (cut_at CHR ''+'' v))"
  by (simp add: clean_def index0_py_split)

lemma str_lt_irrefl: "\<not> str_lt a a"
  by (induction a) auto

lemma str_lt_asym: "str_lt a b \<Longrightarrow> \<not> str_lt b a"
  by (induction a b rule: str_lt.induct) (auto split: if_splits)

subsection \<open>The indexed loop is the padded element-wise comparison\<close>

lemma loop_step:
  assumes "i < max (length ps) (length qs)"
  shows "compare_loop ps qs i =
    (case cmp_part (if i < length ps then ps ! i else PInt 0)
                   (if i < length qs then qs ! i else PInt 0) of
        Equal \<Rightarrow> compare_loop ps qs (Suc i) | r \<Rightarrow> int_of_ordering r)"
  using assms
  by (subst compare_loop.simps)
     (auto simp: cmp_part_def str_gt_def int_of_ordering_def Let_def dest: str_lt_asym
           split: part.splits)

lemma compare_loop_padded:
  "compare_loop ps qs i = int_of_ordering (cmp_padded (drop i ps) (drop i qs))"
proof (induction "max (length ps) (length qs) - i" arbitrary: i)
  case 0
  then have "\<not> i < max (length ps) (length qs)" by arith
  then show ?case by (subst compare_loop.simps) (simp add: int_of_ordering_def)
next
  case (Suc n)
  then have lt: "i < max (length ps) (length qs)" and n: "n = max (length ps) (length qs) - Suc i"
    by auto
  note IH = Suc.hyps(1)[OF n]
  show ?case
  proof (cases "i < length ps")
    case True
    note ips = True
    then have dp: "drop i ps = ps ! i # drop (Suc i) ps" by (simp add: Cons_nth_drop_Suc)
    show ?thesis
    proof (cases "i < length qs")
      case True
      then have dq: "drop i qs = qs ! i # drop (Suc i) qs" by (simp add: Cons_nth_drop_Suc)
      show ?thesis using ips True
        by (simp add: loop_step[OF lt] dp dq IH split: ordering.splits)
    next
      case False
      then have dq: "drop i qs = []" "drop (Suc i) qs = []" by simp_all
      show ?thesis using ips False IH
        by (simp add: loop_step[OF lt] dp dq split: ordering.splits)
    qed
  next
    case False
    then have dp: "drop i ps = []" "drop (Suc i) ps = []" by simp_all
    from False lt have iq: "i < length qs" by simp
    then have dq: "drop i qs = qs ! i # drop (Suc i) qs" by (simp add: Cons_nth_drop_Suc)
    show ?thesis using False iq IH
      by (simp add: loop_step[OF lt] dp dq split: ordering.splits)
  qed
qed

lemma compare_try_eq:
  "compare_try a b =
     (case (segments replace_v a, segments replace_v b) of
        (Some ps, Some qs) \<Rightarrow> Some (int_of_ordering (cmp_padded ps qs))
      | _ \<Rightarrow> None)"
  by (simp add: compare_try_def clean_eq segments_def compare_loop_padded split: option.splits)

lemma compare_versions_refines:
  "compare_versions a b = int_of_ordering (spec_compare_with replace_v a b)"
  by (auto simp add: compare_versions_def compare_try_eq spec_compare_with_def cmp_raw_def
        str_gt_def int_of_ordering_def dest: str_lt_asym split: option.splits)

subsection \<open>Reflexivity, antisymmetry, and transitivity on numeric versions\<close>

lemma cmp_part_refl: "cmp_part p p = Equal"
  by (cases p) (simp_all add: cmp_part_def str_lt_irrefl)

lemma cmp_part_flip: "cmp_part q p = flip_ordering (cmp_part p q)"
  by (cases p; cases q) (auto simp: cmp_part_def flip_ordering_def dest: str_lt_asym)

lemma cmp_padded_refl: "cmp_padded ps ps = Equal"
  by (induction ps) (simp_all add: cmp_part_refl)

lemma cmp_padded_flip: "cmp_padded qs ps = flip_ordering (cmp_padded ps qs)"
proof (induction ps qs rule: cmp_padded.induct)
  case 1
  show ?case by (simp add: flip_ordering_def)
next
  case (2 p ps)
  then show ?case
    by (simp add: cmp_part_flip[of "PInt 0" p] flip_ordering_def split: ordering.splits)
next
  case (3 q qs)
  then show ?case
    by (simp add: cmp_part_flip[of q "PInt 0"] flip_ordering_def split: ordering.splits)
next
  case (4 p ps q qs)
  then show ?case
    by (simp add: cmp_part_flip[of q p] flip_ordering_def split: ordering.splits)
qed

lemma cmp_raw_flip: "cmp_raw b a = flip_ordering (cmp_raw a b)"
  by (auto simp: cmp_raw_def flip_ordering_def dest: str_lt_asym)

lemma spec_compare_with_refl: "spec_compare_with f a a = Equal"
  by (simp add: spec_compare_with_def cmp_padded_refl cmp_raw_def str_lt_irrefl
        split: option.splits)

lemma spec_compare_with_flip:
  "spec_compare_with f b a = flip_ordering (spec_compare_with f a b)"
  by (simp add: spec_compare_with_def cmp_padded_flip[symmetric] cmp_raw_flip[symmetric]
        split: option.splits)

lemma int_parts: "list_all is_int_part ps \<Longrightarrow> \<exists>xs. ps = map PInt xs"
proof (induction ps)
  case Nil
  then show ?case by simp
next
  case (Cons p ps)
  then obtain xs where "ps = map PInt xs" by auto
  moreover from Cons.prems obtain x where "p = PInt x"
    by (cases p) (simp_all add: is_int_part_def)
  ultimately have "p # ps = map PInt (x # xs)" by simp
  then show ?case by (rule exI)
qed

lemma cmp_ints_step:
  "xs \<noteq> [] \<or> ys \<noteq> [] \<Longrightarrow>
   cmp_padded (map PInt xs) (map PInt ys) =
     (if (case ys of [] \<Rightarrow> 0 | y # _ \<Rightarrow> y) < (case xs of [] \<Rightarrow> 0 | x # _ \<Rightarrow> x) then Greater
      else if (case xs of [] \<Rightarrow> 0 | x # _ \<Rightarrow> x) < (case ys of [] \<Rightarrow> 0 | y # _ \<Rightarrow> y) then Less
      else cmp_padded (map PInt (tl xs)) (map PInt (tl ys)))"
  by (cases xs; cases ys) (simp_all add: cmp_part_def)

lemma cmp_ints_trans:
  "length xs \<le> n \<Longrightarrow> length ys \<le> n \<Longrightarrow> length zs \<le> n \<Longrightarrow>
   cmp_padded (map PInt xs) (map PInt ys) = Greater \<Longrightarrow>
   cmp_padded (map PInt ys) (map PInt zs) = Greater \<Longrightarrow>
   cmp_padded (map PInt xs) (map PInt zs) = Greater"
proof (induction n arbitrary: xs ys zs)
  case 0
  then show ?case by simp
next
  case (Suc n)
  define a where "a = (case xs of [] \<Rightarrow> 0 | x # _ \<Rightarrow> x)"
  define b where "b = (case ys of [] \<Rightarrow> 0 | y # _ \<Rightarrow> y)"
  define c where "c = (case zs of [] \<Rightarrow> 0 | z # _ \<Rightarrow> z)"
  have len: "length (tl xs) \<le> n" "length (tl ys) \<le> n" "length (tl zs) \<le> n"
    using Suc.prems(1-3) by simp_all
  note IH = Suc.IH[OF len]
  from Suc.prems(4) have xy: "xs \<noteq> [] \<or> ys \<noteq> []" by (cases xs; cases ys) simp_all
  from Suc.prems(5) have yz: "ys \<noteq> [] \<or> zs \<noteq> []" by (cases ys; cases zs) simp_all
  from Suc.prems(4)
  have 1: "b < a \<or> (a = b \<and> cmp_padded (map PInt (tl xs)) (map PInt (tl ys)) = Greater)"
    unfolding cmp_ints_step[OF xy] a_def b_def by (simp split: if_splits)
  from Suc.prems(5)
  have 2: "c < b \<or> (b = c \<and> cmp_padded (map PInt (tl ys)) (map PInt (tl zs)) = Greater)"
    unfolding cmp_ints_step[OF yz] b_def c_def by (simp split: if_splits)
  show ?case
  proof (cases "xs = [] \<and> zs = []")
    case True
    then have "a = 0" "c = 0" by (simp_all add: a_def c_def)
    with 1 2 have g: "cmp_padded (map PInt (tl xs)) (map PInt (tl ys)) = Greater"
                     "cmp_padded (map PInt (tl ys)) (map PInt (tl zs)) = Greater"
      by auto
    from IH[OF g] True show ?thesis by simp
  next
    case False
    then have xz: "xs \<noteq> [] \<or> zs \<noteq> []" by simp
    from 1 2 IH show ?thesis
      unfolding cmp_ints_step[OF xz] a_def[symmetric] c_def[symmetric] by auto
  qed
qed

lemma numeric_trans:
  assumes "numeric_version a" "numeric_version b" "numeric_version c"
    and "spec_compare_with replace_v a b = Greater" "spec_compare_with replace_v b c = Greater"
  shows "spec_compare_with replace_v a c = Greater"
proof -
  from assms(1) obtain xs where a: "segments replace_v a = Some (map PInt xs)"
    by (auto simp: numeric_version_def split: option.splits dest: int_parts)
  from assms(2) obtain ys where b: "segments replace_v b = Some (map PInt ys)"
    by (auto simp: numeric_version_def split: option.splits dest: int_parts)
  from assms(3) obtain zs where c: "segments replace_v c = Some (map PInt zs)"
    by (auto simp: numeric_version_def split: option.splits dest: int_parts)
  define n where "n = max (length xs) (max (length ys) (length zs))"
  have len: "length xs \<le> n" "length ys \<le> n" "length zs \<le> n" by (simp_all add: n_def)
  from assms(4,5) cmp_ints_trans[OF len] show ?thesis
    by (simp add: spec_compare_with_def a b c)
qed

lemma int_of_ordering_simps:
  "int_of_ordering r = 1 \<longleftrightarrow> r = Greater"
  "int_of_ordering r = - 1 \<longleftrightarrow> r = Less"
  "int_of_ordering r = 0 \<longleftrightarrow> r = Equal"
  by (cases r; simp add: int_of_ordering_def)+

subsection \<open>A segment beyond the digit limit\<close>

text \<open>
  A segment of decimal digits that is longer than the limit of \<open>int\<close> sends the whole
  comparison to the raw strings, so such versions are not compared as numbers: \<open>10\<close> is
  above \<open>9\<close> as a number, \<open>9\<close> is above the long version as a string, and \<open>10\<close> is
  below the long version as a string (a proper prefix).
\<close>

lemma py_split_no_sep: "sep \<notin> set s \<Longrightarrow> py_split sep s = [s]"
  by (induction s) auto

lemma long_version_unfold:
  "long_version = CHR ''1'' # CHR ''0'' # CHR ''0'' # replicate 4298 (CHR ''0'')"
proof -
  have e: "(4300::nat) = Suc (Suc 4298)" by simp
  show ?thesis by (simp only: long_version_def e replicate.simps)
qed

lemma long_version_set: "set long_version = {CHR ''1'', CHR ''0''}"
  by (auto simp: long_version_def)

lemma long_version_segments: "segments replace_v long_version = None"
proof -
  have c1: "cut_at CHR ''+'' long_version = long_version"
    by (simp add: cut_at_def long_version_set)
  have c2: "cut_at CHR ''-'' long_version = long_version"
    by (simp add: cut_at_def long_version_set)
  have c: "cut_at CHR ''-'' (cut_at CHR ''+'' long_version) = long_version"
    by (simp only: c1 c2)
  have r: "replace_v long_version = long_version"
    by (simp add: replace_v_def filter_id_conv long_version_set)
  have s: "py_split CHR ''.'' long_version = [long_version]"
    by (rule py_split_no_sep) (simp add: long_version_set)
  have d: "isdigit long_version"
    by (auto simp: isdigit_def list_all_iff long_version_set is_decimal_def)
       (simp add: long_version_def)
  have l: "length long_version = 4301" by (simp add: long_version_def)
  have "py_int long_version = None"
    by (simp add: py_int_def l int_max_str_digits_def)
  with d have "to_part long_version = None" by (simp add: to_part_def)
  then show ?thesis by (simp add: segments_def c r s)
qed

lemma long_segment_breaks_transitivity:
  "compare_versions ''10'' ''9'' = 1
   \<and> compare_versions ''9'' long_version = 1
   \<and> compare_versions ''10'' long_version = - 1
   \<and> \<not> numeric_version long_version"
proof (intro conjI)
  show "compare_versions ''10'' ''9'' = 1" by code_simp
  have s9: "segments replace_v ''9'' = Some [PInt 9]" by code_simp
  have s10: "segments replace_v ''10'' = Some [PInt 10]" by code_simp
  have lt9: "str_lt long_version ''9''" "\<not> str_lt ''9'' long_version"
    by (simp_all add: long_version_unfold)
  have lt10: "str_lt ''10'' long_version" "\<not> str_lt long_version ''10''"
    by (simp_all add: long_version_unfold)
  show "compare_versions ''9'' long_version = 1"
    by (simp add: compare_versions_refines spec_compare_with_def s9 long_version_segments
          cmp_raw_def lt9 int_of_ordering_def)
  show "compare_versions ''10'' long_version = - 1"
    by (simp add: compare_versions_refines spec_compare_with_def s10 long_version_segments
          cmp_raw_def lt10 int_of_ordering_def)
  show "\<not> numeric_version long_version"
    by (simp add: numeric_version_def long_version_segments)
qed

subsection \<open>The claims on the comparator\<close>

text \<open>
  C4, as the specification words it, fails: the code deletes every \<open>v\<close> of the cleaned
  string (\<open>replace('v', '')\<close>), not a leading one only. For \<open>1.v2\<close> against \<open>1.2\<close> the
  code compares the segments 1, 2 with 1, 2 and answers equal, where the specification's
  algorithm keeps the token \<open>v2\<close> and answers greater.
\<close>

theorem C4_leading_v_counterexample:
  "compare_versions ''1.v2'' ''1.2'' = 0 \<and> spec_compare ''1.v2'' ''1.2'' = Greater"
  by code_simp

text \<open>
  C4, amended: for all version strings the code computes the specified algorithm with every
  \<open>v\<close> deleted instead of a leading one: cut at the first \<open>+\<close>, then at the first \<open>-\<close>,
  delete each \<open>v\<close>, split on dots, read the numeric segments as integers, pad the shorter
  sequence with zeros, compare pair by pair (numerically two integers, as strings otherwise)
  up to the first difference; when a segment cannot be read the two raw strings are compared;
  the function is total. In particular \<open>1.2.10\<close> is greater than \<open>1.2.9\<close>.
\<close>

theorem C4_compare_versions_algorithm:
  "compare_versions a b = int_of_ordering (spec_compare_with replace_v a b)
   \<and> compare_versions ''1.2.10'' ''1.2.9'' = 1"
proof
  show "compare_versions a b = int_of_ordering (spec_compare_with replace_v a b)"
    by (rule compare_versions_refines)
  show "compare_versions ''1.2.10'' ''1.2.9'' = 1"
    by code_simp
qed

text \<open>
  C5, as stated, fails on transitivity: a pair of integers is compared numerically and any
  other pair as strings, so \<open>10\<close> is above \<open>9\<close> (numbers), \<open>9\<close> is above \<open>1a\<close>
  (strings), and \<open>10\<close> is below \<open>1a\<close> (strings). The same happens between the numeric
  order and the order of the raw strings, as the long version above shows.
\<close>

theorem C5_transitivity_counterexample:
  "compare_versions ''10'' ''9'' = 1 \<and> compare_versions ''9'' ''1a'' = 1
   \<and> compare_versions ''10'' ''1a'' = - 1"
  by code_simp

text \<open>
  C5, amended: the comparison is reflexive and antisymmetric on all strings, and transitive
  on versions all of whose segments are decimal numbers that \<open>int\<close> converts, that is,
  of at most 4300 digits each (\<open>numeric_version\<close>).
\<close>

theorem C5_compare_versions_order:
  "compare_versions a a = 0
   \<and> (compare_versions a b = 1 \<longleftrightarrow> compare_versions b a = - 1)
   \<and> (numeric_version a \<and> numeric_version b \<and> numeric_version c
        \<and> compare_versions a b = 1 \<and> compare_versions b c = 1
      \<longrightarrow> compare_versions a c = 1)"
proof (intro conjI impI)
  show "compare_versions a a = 0"
    by (simp add: compare_versions_refines spec_compare_with_refl int_of_ordering_def)
  show "compare_versions a b = 1 \<longleftrightarrow> compare_versions b a = - 1"
    by (simp add: compare_versions_refines int_of_ordering_simps
          spec_compare_with_flip[of replace_v b a] flip_ordering_def split: ordering.splits)
next
  assume h: "numeric_version a \<and> numeric_version b \<and> numeric_version c
        \<and> compare_versions a b = 1 \<and> compare_versions b c = 1"
  then have "spec_compare_with replace_v a c = Greater"
    using numeric_trans[of a b c]
    by (simp add: compare_versions_refines int_of_ordering_simps)
  then show "compare_versions a c = 1"
    by (simp add: compare_versions_refines int_of_ordering_simps)
qed

theorem C5_compare_versions_order_witness:
  "numeric_version ''1.21.4'' \<and> numeric_version ''1.21'' \<and> numeric_version ''1.20.6''
   \<and> compare_versions ''1.21.4'' ''1.21'' = 1 \<and> compare_versions ''1.21'' ''1.20.6'' = 1
   \<and> compare_versions ''1.21.4'' ''1.20.6'' = 1
   \<and> compare_versions ''1.21.4'' ''1.21.4'' = 0
   \<and> compare_versions ''1.21'' ''1.21.4'' = - 1"
proof -
  have h: "numeric_version ''1.21.4'' \<and> numeric_version ''1.21'' \<and> numeric_version ''1.20.6''
    \<and> compare_versions ''1.21.4'' ''1.21'' = 1 \<and> compare_versions ''1.21'' ''1.20.6'' = 1"
    by code_simp
  from C5_compare_versions_order[of "''1.21.4''" "''1.21''" "''1.20.6''"] h
  show ?thesis by simp
qed

section \<open>Properties of the compatibility search\<close>

lemma check_mods_covers:
  "check_mods w mc ms (d, miss, log) = Inr (d', miss', log') \<Longrightarrow>
     (\<forall>m\<in>set ms. truthy (mod_name m) \<longrightarrow>
         the (mod_name m) \<in> fst ` set d' \<or> the (mod_name m) \<in> set miss')
     \<and> fst ` set d \<subseteq> fst ` set d' \<and> set miss \<subseteq> set miss'"
proof (induction ms arbitrary: d miss log)
  case Nil
  then show ?case by simp
next
  case (Cons m ms)
  show ?case
  proof (cases "truthy (mod_name m)")
    case False
    then have "check_mods w mc (m # ms) (d, miss, log) = check_mods w mc ms (d, miss, log)"
      by (simp add: truthy_def split: option.splits)
    with Cons.prems Cons.IH[of d miss log] False show ?thesis by simp
  next
    case True
    then obtain n where n: "mod_name m = Some n" "n \<noteq> []"
      by (auto simp: truthy_def split: option.splits)
    obtain pid log1 where s: "search_modrinth_project w log n = (pid, log1)"
      by (cases "search_modrinth_project w log n")
    obtain vs log2 where g: "get_mod_versions w log1 (the pid) mc ''fabric'' = (vs, log2)"
      by (cases "get_mod_versions w log1 (the pid) mc ''fabric''")
    from Cons.prems n s g
    consider (missing) lg where "check_mods w mc ms (d, miss @ [n], lg) = Inr (d', miss', log')"
      | (found) det where "check_mods w mc ms (AList.update n det d, miss, log2) = Inr (d', miss', log')"
      by (auto split: if_splits list.splits sum.splits)
    then show ?thesis
    proof cases
      case missing
      from Cons.IH[OF missing] n show ?thesis by auto
    next
      case found
      from Cons.IH[OF found] n show ?thesis by (auto simp: dom_update)
    qed
  qed
qed

lemma check_full_compatibility_all:
  assumes "check_full_compatibility w ms log mc f = Inr ((True, d, miss), log')"
  shows "miss = [] \<and> (\<forall>m\<in>set ms. truthy (mod_name m) \<longrightarrow> the (mod_name m) \<in> fst ` set d)"
proof -
  from assms have chk: "check_mods w mc ms ([], [], log) = Inr (d, miss, log')" and e: "miss = []"
    by (auto simp: check_full_compatibility_def split: sum.splits)
  from check_mods_covers[OF chk] e show ?thesis by simp
qed

lemma check_full_compatibility_flag:
  "check_full_compatibility w ms log mc f = Inr ((ok, d, miss), log') \<Longrightarrow> ok = (miss = [])"
  by (auto simp: check_full_compatibility_def split: sum.splits)

lemma test_fabric_versions_found:
  "test_fabric_versions w ms mc fs log = Inr (Some (f, d), log') \<Longrightarrow>
   \<exists>la. check_full_compatibility w ms la mc f = Inr ((True, d, []), log')"
proof (induction fs arbitrary: log)
  case Nil
  then show ?case by simp
next
  case (Cons a fs)
  show ?case
  proof (cases "check_full_compatibility w ms log mc a")
    case (Inl e)
    with Cons.prems show ?thesis by simp
  next
    case (Inr res)
    obtain ok d1 m1 l1 where res: "res = ((ok, d1, m1), l1)" by (cases res) auto
    show ?thesis
    proof (cases ok)
      case True
      with Cons.prems Inr res have "f = a" "d = d1" "log' = l1" by simp_all
      moreover from Inr res True check_full_compatibility_flag[of w ms log mc a ok d1 m1 l1]
      have "m1 = []" by simp
      ultimately have "check_full_compatibility w ms log mc f = Inr ((True, d, []), log')"
        using Inr res True by simp
      then show ?thesis by (rule exI)
    next
      case False
      with Cons.prems Inr res have "test_fabric_versions w ms mc fs l1 = Inr (Some (f, d), log')"
        by simp
      from Cons.IH[OF this] show ?thesis .
    qed
  qed
qed

lemma test_mc_versions_found:
  assumes "test_mc_versions w c nv vs log = Inr (Some r, log')"
  shows "\<exists>la. check_full_compatibility w (mods c) la (minecraft_new r) (fabric_new r)
                 = Inr ((True, result_mods r, []), log')"
proof (cases vs)
  case Nil
  with assms show ?thesis by simp
next
  case (Cons mc rest)
  from assms Cons obtain fs l1 f d where
    t: "test_fabric_versions w (mods c) mc fs l1 = Inr (Some (f, d), log')"
    and r: "minecraft_new r = mc" "fabric_new r = f" "result_mods r = d"
    by (auto simp: Let_def simp del: test_fabric_versions.simps fabric_versions_of.simps
          split: option.splits list.splits if_splits sum.splits prod.splits)
  from test_fabric_versions_found[OF t] r show ?thesis by simp
qed

lemma find_compatible_updates_found:
  assumes "find_compatible_updates w c log = Inr (Some r, log')"
  shows "\<exists>la. check_full_compatibility w (mods c) la (minecraft_new r) (fabric_new r)
                 = Inr ((True, result_mods r, []), log')"
proof -
  from assms obtain nv l1 where "test_mc_versions w c nv nv l1 = Inr (Some r, log')"
    by (auto simp: find_compatible_updates_def Let_def split: option.splits sum.splits if_splits)
  from test_mc_versions_found[OF this] show ?thesis .
qed

lemma index_of_member: "x \<in> set xs \<Longrightarrow> \<exists>i. index_of x xs = Inr i"
  by (induction xs) auto

lemma test_fabric_versions_append:
  "test_fabric_versions w ms mc fs1 log = Inr (None, log1) \<Longrightarrow>
   test_fabric_versions w ms mc (fs1 @ fs2) log = test_fabric_versions w ms mc fs2 log1"
proof (induction fs1 arbitrary: log)
  case Nil
  then show ?case by simp
next
  case (Cons a fs1)
  then show ?case
    by (cases "check_full_compatibility w ms log mc a") (auto split: if_splits)
qed

lemma find_compatible_updates_reached:
  assumes "engine_candidates c (manifest_response w log) = Inr (e # es)"
      and "loader_candidates (loader_response w (log @ [GetManifest]) e) = fs1 @ f # fs2"
      and "test_fabric_versions w (mods c) e fs1 (log @ [GetManifest, GetLoaders e]) = Inr (None, log1)"
      and "check_full_compatibility w (mods c) log1 e f = Inr ((True, d, miss), log2)"
  shows "\<exists>r. find_compatible_updates w c log = Inr (Some r, log2)
            \<and> minecraft_new r = e \<and> fabric_new r = f \<and> result_mods r = d"
proof -
  from assms(1) obtain man vs where m: "fst (fetch_json (manifest_response w log)) = Some man"
    "versions man = Some vs" "newer_releases (mc_version c) vs = Inr (e # es)"
    by (auto simp: engine_candidates_def split: option.splits)
  from assms(2) obtain ld where ld:
    "fst (fetch_json (loader_response w (log @ [GetManifest]) e)) = Some ld"
    "fabric_versions_of ld = fs1 @ f # fs2"
    by (auto simp: loader_candidates_def split: option.splits)
  then obtain item items where items: "ld = item # items" by (cases ld) auto
  note l = ld[unfolded items]
  have t: "test_fabric_versions w (mods c) e (fs1 @ f # fs2) (log @ [GetManifest, GetLoaders e])
        = Inr (Some (f, d), log2)"
    using test_fabric_versions_append[OF assms(3), of "f # fs2"] assms(4) by simp
  obtain j where j: "index_of f (fs1 @ f # fs2) = Inr j"
    using index_of_member[of f "fs1 @ f # fs2"] by auto
  show ?thesis
    using m l t j
    by (simp add: find_compatible_updates_def Let_def
          del: test_fabric_versions.simps fabric_versions_of.simps)
qed

lemma search_log:
  "search_modrinth_project w log n = (pid, log') \<Longrightarrow> log' = log @ [Search n]"
  by (auto simp: search_modrinth_project_def Let_def split: option.splits list.splits)

lemma versions_log:
  "get_mod_versions w log pid mc loader = (vs, log') \<Longrightarrow> log' = log @ [GetVersions pid mc loader]"
  by (auto simp: get_mod_versions_def split: option.splits)

lemma check_mods_log:
  "check_mods w mc ms (d, miss, log) = Inr (d', miss', log') \<Longrightarrow>
   \<exists>xs. log' = log @ xs \<and> list_all mod_request xs"
proof (induction ms arbitrary: d miss log)
  case Nil
  then show ?case by simp
next
  case (Cons m ms)
  show ?case
  proof (cases "truthy (mod_name m)")
    case False
    then have "check_mods w mc (m # ms) (d, miss, log) = check_mods w mc ms (d, miss, log)"
      by (simp add: truthy_def split: option.splits)
    with Cons.prems Cons.IH[of d miss log] show ?thesis by simp
  next
    case True
    then obtain n where n: "mod_name m = Some n" "n \<noteq> []"
      by (auto simp: truthy_def split: option.splits)
    obtain pid log1 where s: "search_modrinth_project w log n = (pid, log1)"
      by (cases "search_modrinth_project w log n")
    obtain vs log2 where g: "get_mod_versions w log1 (the pid) mc ''fabric'' = (vs, log2)"
      by (cases "get_mod_versions w log1 (the pid) mc ''fabric''")
    note l1 = search_log[OF s]
    note l2 = versions_log[OF g]
    from Cons.prems n s g
    consider (one) d1 m1 where "check_mods w mc ms (d1, m1, log1) = Inr (d', miss', log')"
      | (two) d1 m1 where "check_mods w mc ms (d1, m1, log2) = Inr (d', miss', log')"
      by (auto split: if_splits list.splits sum.splits)
    then show ?thesis
    proof cases
      case one
      from Cons.IH[OF one] obtain xs where "log' = log1 @ xs" "list_all mod_request xs" by blast
      with l1 have "log' = log @ (Search n # xs) \<and> list_all mod_request (Search n # xs)"
        by (simp add: mod_request_def)
      then show ?thesis by blast
    next
      case two
      from Cons.IH[OF two] obtain xs where "log' = log2 @ xs" "list_all mod_request xs" by blast
      with l1 l2
      have "log' = log @ (Search n # GetVersions (the pid) mc ''fabric'' # xs)
            \<and> list_all mod_request (Search n # GetVersions (the pid) mc ''fabric'' # xs)"
        by (simp add: mod_request_def)
      then show ?thesis by blast
    qed
  qed
qed

lemma check_full_compatibility_log:
  "check_full_compatibility w ms log mc f = Inr (res, log') \<Longrightarrow>
   \<exists>xs. log' = log @ xs \<and> list_all mod_request xs"
  by (auto simp: check_full_compatibility_def split: sum.splits dest: check_mods_log)

lemma test_fabric_versions_log:
  "test_fabric_versions w ms mc fs log = Inr (res, log') \<Longrightarrow>
   \<exists>xs. log' = log @ xs \<and> list_all mod_request xs"
proof (induction fs arbitrary: log)
  case Nil
  then show ?case by simp
next
  case (Cons a fs)
  show ?case
  proof (cases "check_full_compatibility w ms log mc a")
    case (Inl e)
    with Cons.prems show ?thesis by simp
  next
    case (Inr r)
    obtain ok d1 m1 l1 where r: "r = ((ok, d1, m1), l1)" by (cases r) auto
    from check_full_compatibility_log[OF Inr[unfolded r]] obtain xs where
      xs: "l1 = log @ xs" "list_all mod_request xs" by blast
    show ?thesis
    proof (cases ok)
      case True
      with Cons.prems Inr r have "log' = l1" by simp
      with xs show ?thesis by blast
    next
      case False
      with Cons.prems Inr r have "test_fabric_versions w ms mc fs l1 = Inr (res, log')" by simp
      from Cons.IH[OF this] obtain ys where "log' = l1 @ ys" "list_all mod_request ys" by blast
      with xs have "log' = log @ (xs @ ys) \<and> list_all mod_request (xs @ ys)" by simp
      then show ?thesis by blast
    qed
  qed
qed

lemma test_mc_versions_log:
  assumes "test_mc_versions w c nv (mc # rest) log = Inr (res, log')"
  shows "\<exists>xs. log' = log @ GetLoaders mc # xs \<and> list_all mod_request xs"
proof -
  from assms consider "log' = log @ [GetLoaders mc]"
    | fs r l2 where "test_fabric_versions w (mods c) mc fs (log @ [GetLoaders mc]) = Inr (r, l2)" "log' = l2"
    by (auto simp: Let_def simp del: test_fabric_versions.simps fabric_versions_of.simps
          split: option.splits list.splits if_splits sum.splits prod.splits)
  then show ?thesis
  proof cases
    case 1
    then show ?thesis by simp
  next
    case 2
    from test_fabric_versions_log[OF 2(1)] 2(2) show ?thesis by auto
  qed
qed

lemma find_compatible_updates_log:
  assumes "find_compatible_updates w c log = Inr (res, log')"
  shows "log' = log @ [GetManifest] \<or>
         (\<exists>e es xs. engine_candidates c (manifest_response w log) = Inr (e # es)
             \<and> log' = log @ GetManifest # GetLoaders e # xs \<and> list_all mod_request xs)"
proof -
  from assms consider "log' = log @ [GetManifest]"
    | nv where "engine_candidates c (manifest_response w log) = Inr nv" "nv \<noteq> []"
        "test_mc_versions w c nv nv (log @ [GetManifest]) = Inr (res, log')"
    by (auto simp: find_compatible_updates_def engine_candidates_def Let_def
          simp del: test_mc_versions.simps
          split: option.splits sum.splits if_splits)
  then show ?thesis
  proof cases
    case 1
    then show ?thesis by simp
  next
    case 2
    from 2(2) obtain e es where nv: "nv = e # es" by (cases nv) auto
    from test_mc_versions_log[OF 2(3)[unfolded nv]] 2(1) nv show ?thesis by auto
  qed
qed

lemma only_first_engine_candidate:
  assumes "find_compatible_updates w c log = Inr (res, log')"
    and "GetLoaders e \<in> set (drop (length log) log')"
  shows "\<exists>es. engine_candidates c (manifest_response w log) = Inr (e # es)"
proof -
  from find_compatible_updates_log[OF assms(1)] show ?thesis
  proof
    assume "log' = log @ [GetManifest]"
    with assms(2) show ?thesis by simp
  next
    assume "\<exists>e es xs. engine_candidates c (manifest_response w log) = Inr (e # es)
             \<and> log' = log @ GetManifest # GetLoaders e # xs \<and> list_all mod_request xs"
    then obtain e' es xs where x: "engine_candidates c (manifest_response w log) = Inr (e' # es)"
      "log' = log @ GetManifest # GetLoaders e' # xs" "list_all mod_request xs" by blast
    from x(2) assms(2) have "e = e' \<or> GetLoaders e \<in> set xs" by auto
    moreover from x(3) have "GetLoaders e \<notin> set xs"
      by (auto simp: list_all_iff mod_request_def)
    ultimately show ?thesis using x(1) by auto
  qed
qed

subsection \<open>The claims on the search\<close>

text \<open>
  C1: when the engine candidate under test has no loader candidate (the fetch gives nothing,
  or the payload holds no version), the search ends in failure there: the run returns
  \<open>None\<close> and the requests it has issued are the manifest and the loaders of that one
  engine candidate, so the loaders of no older candidate are fetched. In every run, the
  loaders are requested for the first engine candidate only.
\<close>

theorem C1_no_loader_stops_search:
  "(engine_candidates c (manifest_response w log) = Inr (e2 # es)
      \<and> loader_candidates (loader_response w (log @ [GetManifest]) e2) = [] \<longrightarrow>
    find_compatible_updates w c log = Inr (None, log @ [GetManifest, GetLoaders e2]))
   \<and> (find_compatible_updates w c log = Inr (res, log')
        \<and> GetLoaders e \<in> set (drop (length log) log') \<longrightarrow>
      (\<exists>es'. engine_candidates c (manifest_response w log) = Inr (e # es')))"
proof (intro conjI impI)
  assume "engine_candidates c (manifest_response w log) = Inr (e2 # es)
      \<and> loader_candidates (loader_response w (log @ [GetManifest]) e2) = []"
  then show "find_compatible_updates w c log = Inr (None, log @ [GetManifest, GetLoaders e2])"
    by (auto simp: find_compatible_updates_def engine_candidates_def loader_candidates_def Let_def
          split: option.splits list.splits)
next
  assume "find_compatible_updates w c log = Inr (res, log')
        \<and> GetLoaders e \<in> set (drop (length log) log')"
  then show "\<exists>es'. engine_candidates c (manifest_response w log) = Inr (e # es')"
    using only_first_engine_candidate[of w c log res log' e] by blast
qed

theorem C1_no_loader_stops_search_witness:
  "engine_candidates example_checker (manifest_response no_loader_registries [])
     = Inr [''1.21.5'', ''1.21.4'']
   \<and> loader_candidates (loader_response no_loader_registries [GetManifest] ''1.21.5'') = []
   \<and> loader_candidates (loader_response no_loader_registries [GetManifest] ''1.21.4'')
       = [''0.16.14'']
   \<and> find_compatible_updates no_loader_registries example_checker []
       = Inr (None, [GetManifest, GetLoaders ''1.21.5''])
   \<and> GetLoaders ''1.21.5'' \<in> set (drop (length ([] :: request list))
                                       [GetManifest, GetLoaders ''1.21.5''])"
proof -
  have e: "engine_candidates example_checker (manifest_response no_loader_registries [])
     = Inr [''1.21.5'', ''1.21.4'']"
    by code_simp
  have l: "loader_candidates (loader_response no_loader_registries ([] @ [GetManifest]) ''1.21.5'') = []"
    by code_simp
  have l': "loader_candidates (loader_response no_loader_registries [GetManifest] ''1.21.4'')
       = [''0.16.14'']"
    by code_simp
  have g: "GetLoaders ''1.21.5'' \<in> set (drop (length ([] :: request list))
                                       [GetManifest, GetLoaders ''1.21.5''])"
    by simp
  from C1_no_loader_stops_search[where c = example_checker and w = no_loader_registries
         and log = "[]" and ?e2.0 = "''1.21.5''" and es = "[''1.21.4'']"
         and res = None and log' = "[GetManifest, GetLoaders ''1.21.5'']" and e = "''1.21.5''"]
       e l l' g
  show ?thesis by simp
qed

text \<open>
  C2: when the engine candidate under test has at least two loader candidates, the check
  of all mods fails for the first of them and succeeds for the second, the search returns
  the result for the second loader candidate, with the details that check found. The failed
  check only moves the loop on to the next loader candidate.
\<close>

theorem C2_second_loader_selected:
  assumes "engine_candidates c (manifest_response w log) = Inr (e # es)"
      and "loader_candidates (loader_response w (log @ [GetManifest]) e) = f1 # f2 # fs"
      and "check_full_compatibility w (mods c) (log @ [GetManifest, GetLoaders e]) e f1
             = Inr ((False, d1, m1), log1)"
      and "check_full_compatibility w (mods c) log1 e f2 = Inr ((True, d2, m2), log2)"
  shows "find_compatible_updates w c log =
           Inr (Some \<lparr>minecraft_current = mc_version c, minecraft_new = e,
                      fabric_current = fabric_version c, fabric_new = f2,
                      result_mods = d2, mc_versions_tested = 1,
                      fabric_versions_tested = (if f2 = f1 then 1 else 2)\<rparr>, log2)"
proof -
  from assms(1) obtain man vs where m: "fst (fetch_json (manifest_response w log)) = Some man"
    "versions man = Some vs" "newer_releases (mc_version c) vs = Inr (e # es)"
    by (auto simp: engine_candidates_def split: option.splits)
  from assms(2) obtain ld where ld:
    "fst (fetch_json (loader_response w (log @ [GetManifest]) e)) = Some ld"
    "fabric_versions_of ld = f1 # f2 # fs"
    by (auto simp: loader_candidates_def split: option.splits)
  then obtain item items where items: "ld = item # items" by (cases ld) auto
  note l = ld[unfolded items]
  have t: "test_fabric_versions w (mods c) e (f1 # f2 # fs) (log @ [GetManifest, GetLoaders e])
        = Inr (Some (f2, d2), log2)"
    using assms(3,4) by simp
  show ?thesis
    using m l t
    by (simp add: find_compatible_updates_def Let_def
          del: test_fabric_versions.simps fabric_versions_of.simps)
qed

theorem C2_second_loader_selected_witness:
  "engine_candidates example_checker (manifest_response late_registries [])
     = Inr [''1.21.5'', ''1.21.4'']
   \<and> loader_candidates (loader_response late_registries [GetManifest] ''1.21.5'')
       = [''0.16.14'', ''0.16.13'']
   \<and> check_full_compatibility late_registries (mods example_checker)
        [GetManifest, GetLoaders ''1.21.5''] ''1.21.5'' ''0.16.14''
       = Inr ((False, [], [''lithium'']),
              [GetManifest, GetLoaders ''1.21.5'', Search ''lithium'',
               GetVersions ''gvQqBUqZ'' ''1.21.5'' ''fabric''])
   \<and> find_compatible_updates late_registries example_checker [] =
       Inr (Some \<lparr>minecraft_current = Some ''1.21.3'', minecraft_new = ''1.21.5'',
                  fabric_current = Some ''0.16.9'', fabric_new = ''0.16.13'',
                  result_mods =
                    [(''lithium'',
                      \<lparr>detail_version = ''mc1.21.5-0.16.2'',
                       detail_url = ''https://cdn.modrinth.com/data/gvQqBUqZ/lithium.jar'',
                       detail_project_id = ''gvQqBUqZ''\<rparr>)],
                  mc_versions_tested = 1, fabric_versions_tested = 2\<rparr>,
            [GetManifest, GetLoaders ''1.21.5'', Search ''lithium'',
             GetVersions ''gvQqBUqZ'' ''1.21.5'' ''fabric'', Search ''lithium'',
             GetVersions ''gvQqBUqZ'' ''1.21.5'' ''fabric''])"
proof -
  have e: "engine_candidates example_checker (manifest_response late_registries [])
     = Inr [''1.21.5'', ''1.21.4'']"
    by code_simp
  have l: "loader_candidates (loader_response late_registries ([] @ [GetManifest]) ''1.21.5'')
       = [''0.16.14'', ''0.16.13'']"
    by code_simp
  have c1: "check_full_compatibility late_registries (mods example_checker)
        ([] @ [GetManifest, GetLoaders ''1.21.5'']) ''1.21.5'' ''0.16.14''
       = Inr ((False, [], [''lithium'']),
              [GetManifest, GetLoaders ''1.21.5'', Search ''lithium'',
               GetVersions ''gvQqBUqZ'' ''1.21.5'' ''fabric''])"
    by code_simp
  have c2: "check_full_compatibility late_registries (mods example_checker)
        [GetManifest, GetLoaders ''1.21.5'', Search ''lithium'',
               GetVersions ''gvQqBUqZ'' ''1.21.5'' ''fabric''] ''1.21.5'' ''0.16.13''
       = Inr ((True, [(''lithium'',
                      \<lparr>detail_version = ''mc1.21.5-0.16.2'',
                       detail_url = ''https://cdn.modrinth.com/data/gvQqBUqZ/lithium.jar'',
                       detail_project_id = ''gvQqBUqZ''\<rparr>)], []),
              [GetManifest, GetLoaders ''1.21.5'', Search ''lithium'',
               GetVersions ''gvQqBUqZ'' ''1.21.5'' ''fabric'', Search ''lithium'',
               GetVersions ''gvQqBUqZ'' ''1.21.5'' ''fabric''])"
    by code_simp
  have v: "mc_version example_checker = Some ''1.21.3''" "fabric_version example_checker = Some ''0.16.9''"
    by (simp_all add: example_checker_def)
  from C2_second_loader_selected[OF e l c1 c2] e l c1 v show ?thesis by simp
qed

text \<open>
  C3, as stated, fails on an entry of the mod list whose name is empty (or absent): the
  check skips it, counting it neither as resolved nor as missing, so a result is returned
  that holds no resolution for this configured mod.
\<close>

theorem C3_unnamed_mod_counterexample:
  "length (mods unnamed_checker) = 1
   \<and> find_compatible_updates steady_registries unnamed_checker [] =
       Inr (Some \<lparr>minecraft_current = Some ''1.21.3'', minecraft_new = ''1.21.5'',
                  fabric_current = Some ''0.16.9'', fabric_new = ''0.16.14'',
                  result_mods = [], mc_versions_tested = 1, fabric_versions_tested = 1\<rparr>,
            [GetManifest, GetLoaders ''1.21.5''])"
  by code_simp

text \<open>
  C3, amended: the resolver returns a result if and only if every configured mod that has
  a non-empty name resolved in one check for the identical (engine, loader) pair. A returned
  result holds a resolution for each configured mod with a non-empty name and is the outcome
  of a check for the returned pair in which no mod was missing, so a pair for which a named
  mod fails to resolve is never returned; and when the search reaches a loader candidate of
  the engine candidate under test (the loader candidates before it were all rejected) for
  which the check finds no mod missing, it returns the result for this pair.
\<close>

theorem C3_all_or_nothing:
  "(find_compatible_updates w c log = Inr (Some r, log') \<longrightarrow>
      (\<forall>m\<in>set (mods c). truthy (mod_name m) \<longrightarrow>
          the (mod_name m) \<in> fst ` set (result_mods r))
      \<and> (\<exists>la. check_full_compatibility w (mods c) la (minecraft_new r) (fabric_new r)
                 = Inr ((True, result_mods r, []), log')))
   \<and> (engine_candidates c (manifest_response w log) = Inr (e # es)
        \<and> loader_candidates (loader_response w (log @ [GetManifest]) e) = fs1 @ f # fs2
        \<and> test_fabric_versions w (mods c) e fs1 (log @ [GetManifest, GetLoaders e])
            = Inr (None, log1)
        \<and> check_full_compatibility w (mods c) log1 e f = Inr ((True, d, miss), log2) \<longrightarrow>
      (\<exists>r'. find_compatible_updates w c log = Inr (Some r', log2)
            \<and> minecraft_new r' = e \<and> fabric_new r' = f \<and> result_mods r' = d))"
proof (intro conjI impI)
  assume a: "find_compatible_updates w c log = Inr (Some r, log')"
  from find_compatible_updates_found[OF a] obtain la where
    la: "check_full_compatibility w (mods c) la (minecraft_new r) (fabric_new r)
                 = Inr ((True, result_mods r, []), log')" by blast
  from check_full_compatibility_all[OF la]
  show "\<forall>m\<in>set (mods c). truthy (mod_name m) \<longrightarrow>
          the (mod_name m) \<in> fst ` set (result_mods r)" by blast
  from la show "\<exists>la. check_full_compatibility w (mods c) la (minecraft_new r) (fabric_new r)
                 = Inr ((True, result_mods r, []), log')" by blast
next
  assume "engine_candidates c (manifest_response w log) = Inr (e # es)
        \<and> loader_candidates (loader_response w (log @ [GetManifest]) e) = fs1 @ f # fs2
        \<and> test_fabric_versions w (mods c) e fs1 (log @ [GetManifest, GetLoaders e])
            = Inr (None, log1)
        \<and> check_full_compatibility w (mods c) log1 e f = Inr ((True, d, miss), log2)"
  then show "\<exists>r'. find_compatible_updates w c log = Inr (Some r', log2)
            \<and> minecraft_new r' = e \<and> fabric_new r' = f \<and> result_mods r' = d"
    using find_compatible_updates_reached[of c w log e es fs1 f fs2 log1 d miss log2] by blast
qed

theorem C3_all_or_nothing_witness:
  "find_compatible_updates steady_registries example_checker [] =
       Inr (Some \<lparr>minecraft_current = Some ''1.21.3'', minecraft_new = ''1.21.5'',
                  fabric_current = Some ''0.16.9'', fabric_new = ''0.16.14'',
                  result_mods =
                    [(''lithium'',
                      \<lparr>detail_version = ''mc1.21.5-0.16.2'',
                       detail_url = ''https://cdn.modrinth.com/data/gvQqBUqZ/lithium.jar'',
                       detail_project_id = ''gvQqBUqZ''\<rparr>)],
                  mc_versions_tested = 1, fabric_versions_tested = 1\<rparr>,
            [GetManifest, GetLoaders ''1.21.5'', Search ''lithium'',
             GetVersions ''gvQqBUqZ'' ''1.21.5'' ''fabric''])
   \<and> ''lithium'' \<in> fst ` set
        [(''lithium'',
          \<lparr>detail_version = ''mc1.21.5-0.16.2'',
           detail_url = ''https://cdn.modrinth.com/data/gvQqBUqZ/lithium.jar'',
           detail_project_id = ''gvQqBUqZ''\<rparr>)]
   \<and> engine_candidates example_checker (manifest_response late_registries [])
       = Inr [''1.21.5'', ''1.21.4'']
   \<and> loader_candidates (loader_response late_registries [GetManifest] ''1.21.5'')
       = [''0.16.14'', ''0.16.13'']
   \<and> test_fabric_versions late_registries (mods example_checker) ''1.21.5'' [''0.16.14'']
        [GetManifest, GetLoaders ''1.21.5'']
       = Inr (None, [GetManifest, GetLoaders ''1.21.5'', Search ''lithium'',
                     GetVersions ''gvQqBUqZ'' ''1.21.5'' ''fabric''])
   \<and> fabric_new (the (fst (projr (find_compatible_updates late_registries example_checker []))))
       = ''0.16.13''"
proof -
  have h: "find_compatible_updates steady_registries example_checker [] =
       Inr (Some \<lparr>minecraft_current = Some ''1.21.3'', minecraft_new = ''1.21.5'',
                  fabric_current = Some ''0.16.9'', fabric_new = ''0.16.14'',
                  result_mods =
                    [(''lithium'',
                      \<lparr>detail_version = ''mc1.21.5-0.16.2'',
                       detail_url = ''https://cdn.modrinth.com/data/gvQqBUqZ/lithium.jar'',
                       detail_project_id = ''gvQqBUqZ''\<rparr>)],
                  mc_versions_tested = 1, fabric_versions_tested = 1\<rparr>,
            [GetManifest, GetLoaders ''1.21.5'', Search ''lithium'',
             GetVersions ''gvQqBUqZ'' ''1.21.5'' ''fabric''])"
    by code_simp
  have e: "engine_candidates example_checker (manifest_response late_registries [])
       = Inr (''1.21.5'' # [''1.21.4''])"
    by code_simp
  have l: "loader_candidates (loader_response late_registries ([] @ [GetManifest]) ''1.21.5'')
       = [''0.16.14''] @ ''0.16.13'' # []"
    by code_simp
  have t: "test_fabric_versions late_registries (mods example_checker) ''1.21.5'' [''0.16.14'']
        ([] @ [GetManifest, GetLoaders ''1.21.5''])
       = Inr (None, [GetManifest, GetLoaders ''1.21.5'', Search ''lithium'',
                     GetVersions ''gvQqBUqZ'' ''1.21.5'' ''fabric''])"
    by code_simp
  have c2: "check_full_compatibility late_registries (mods example_checker)
        [GetManifest, GetLoaders ''1.21.5'', Search ''lithium'',
               GetVersions ''gvQqBUqZ'' ''1.21.5'' ''fabric''] ''1.21.5'' ''0.16.13''
       = Inr ((True, [(''lithium'',
                      \<lparr>detail_version = ''mc1.21.5-0.16.2'',
                       detail_url = ''https://cdn.modrinth.com/data/gvQqBUqZ/lithium.jar'',
                       detail_project_id = ''gvQqBUqZ''\<rparr>)], []),
              [GetManifest, GetLoaders ''1.21.5'', Search ''lithium'',
               GetVersions ''gvQqBUqZ'' ''1.21.5'' ''fabric'', Search ''lithium'',
               GetVersions ''gvQqBUqZ'' ''1.21.5'' ''fabric''])"
    by code_simp
  have first: "''lithium'' \<in> fst ` set
        [(''lithium'',
          \<lparr>detail_version = ''mc1.21.5-0.16.2'',
           detail_url = ''https://cdn.modrinth.com/data/gvQqBUqZ/lithium.jar'',
           detail_project_id = ''gvQqBUqZ''\<rparr>)]"
    using C3_all_or_nothing[where w = steady_registries and c = example_checker and log = "[]"] h
    by simp
  have "\<exists>r'. find_compatible_updates late_registries example_checker [] =
          Inr (Some r', [GetManifest, GetLoaders ''1.21.5'', Search ''lithium'',
               GetVersions ''gvQqBUqZ'' ''1.21.5'' ''fabric'', Search ''lithium'',
               GetVersions ''gvQqBUqZ'' ''1.21.5'' ''fabric''])
        \<and> minecraft_new r' = ''1.21.5'' \<and> fabric_new r' = ''0.16.13''
        \<and> result_mods r' = [(''lithium'',
                      \<lparr>detail_version = ''mc1.21.5-0.16.2'',
                       detail_url = ''https://cdn.modrinth.com/data/gvQqBUqZ/lithium.jar'',
                       detail_project_id = ''gvQqBUqZ''\<rparr>)]"
    using C3_all_or_nothing[where w = late_registries and c = example_checker and log = "[]"
        and e = "''1.21.5''" and es = "[''1.21.4'']" and ?fs1.0 = "[''0.16.14'']"
        and f = "''0.16.13''" and ?fs2.0 = "[]"
        and ?log1.0 = "[GetManifest, GetLoaders ''1.21.5'', Search ''lithium'',
               GetVersions ''gvQqBUqZ'' ''1.21.5'' ''fabric'']"
        and miss = "[]"
        and d = "[(''lithium'',
                      \<lparr>detail_version = ''mc1.21.5-0.16.2'',
                       detail_url = ''https://cdn.modrinth.com/data/gvQqBUqZ/lithium.jar'',
                       detail_project_id = ''gvQqBUqZ''\<rparr>)]"
        and ?log2.0 = "[GetManifest, GetLoaders ''1.21.5'', Search ''lithium'',
               GetVersions ''gvQqBUqZ'' ''1.21.5'' ''fabric'', Search ''lithium'',
               GetVersions ''gvQqBUqZ'' ''1.21.5'' ''fabric'']"]
      e l t c2
    by blast
  then have second: "fabric_new (the (fst (projr (find_compatible_updates late_registries example_checker []))))
       = ''0.16.13''"
    by auto
  from h first e l t second show ?thesis by simp
qed

section \<open>Properties of the registry fetch\<close>

text \<open>
  C6, as stated, fails: a 404 and any other failure give the caller the same value,
  \<open>None\<close>; the status code is not passed on.
\<close>

theorem C6_not_found_counterexample:
  "not_found (HTTPError 404 :: manifest http_result)
   \<and> unavailable (HTTPError 503 :: manifest http_result)
   \<and> unavailable (OtherError ''timed out'' :: manifest http_result)
   \<and> fst (fetch_json (HTTPError 404 :: manifest http_result)) = fst (fetch_json (HTTPError 503))
   \<and> fst (fetch_json (HTTPError 404 :: manifest http_result))
       = fst (fetch_json (OtherError ''timed out''))"
  by (simp add: not_found_def unavailable_def fetch_json_def)

text \<open>
  C6, amended: every failure of a fetch, the 404 and the others alike, returns \<open>None\<close>,
  and a payload is returned exactly when one was received and decoded; no failure leaves
  the function as an exception. The 404 differs from the other failures in what is printed
  only: nothing for a 404, an error line for every other failure.
\<close>

theorem C6_fetch_outcomes:
  "(not_found r \<or> unavailable r \<longrightarrow> fst (fetch_json r) = None)
   \<and> (fst (fetch_json r) = Some p \<longleftrightarrow> r = Payload p)
   \<and> (not_found r \<longrightarrow> snd (fetch_json r) = [])
   \<and> (unavailable r \<longrightarrow> snd (fetch_json r) \<noteq> [])"
  by (cases r) (auto simp: fetch_json_def not_found_def unavailable_def)

theorem C6_fetch_outcomes_witness:
  "not_found (HTTPError 404 :: manifest http_result)
   \<and> fetch_json (HTTPError 404 :: manifest http_result) = (None, [])
   \<and> unavailable (OtherError ''timed out'' :: manifest http_result)
   \<and> fetch_json (OtherError ''timed out'' :: manifest http_result)
       = (None, [FetchErrorLine ''timed out''])
   \<and> fetch_json (Payload example_manifest) = (Some example_manifest, [])"
  using C6_fetch_outcomes[of "HTTPError 404 :: manifest http_result" example_manifest]
    C6_fetch_outcomes[of "OtherError ''timed out'' :: manifest http_result" example_manifest]
    C6_fetch_outcomes[of "Payload example_manifest" example_manifest]
  by (simp add: not_found_def unavailable_def fetch_json_def)

section \<open>Properties of the download plan and its execution\<close>

subsection \<open>A single download\<close>

lemma path_exists_delete: "\<not> path_exists (AList.delete p fs) p"
  by (simp add: path_exists_def delete_conv')

lemma download_handler_absent:
  "download_handler env dest st = Inr (ok, st') \<Longrightarrow> \<not> ok \<and> \<not> path_exists (disk st') dest"
  by (auto simp: download_handler_def path_exists_delete split: if_splits)

lemma download_handler_returns:
  "removable env dest \<Longrightarrow>
   download_handler env dest st =
     Inr (False, if path_exists (disk st) dest
                 then st\<lparr>disk := AList.delete dest (disk st)\<rparr> else st)"
  by (simp add: download_handler_def)

lemma download_file_fetched:
  "download_file env url dest st = Inr (ok, st') \<Longrightarrow> fetched st' = fetched st @ [(url, dest)]"
  by (auto simp: download_file_def download_handler_def Let_def split: transfer.splits if_splits)

text \<open>
  C8, as stated, fails for a transfer whose body ends early without an exception: nothing
  is raised, so the handler does not run, the method returns \<open>True\<close> and the truncated
  file stays at the destination, where a later test for existence finds it.
\<close>

theorem C8_truncated_body_counterexample:
  "transfer_of example_environment (fetched example_state)
      ''https://cdn.modrinth.com/ferritecore.jar'' ''server/mods/ferritecore.jar''
     = Truncated ''PK''
   \<and> download_file example_environment ''https://cdn.modrinth.com/ferritecore.jar''
        ''server/mods/ferritecore.jar'' example_state
       = Inr (True,
              \<lparr>disk = [(''server/server.jar'', ''server bytes''),
                       (''server/mods/lithium.jar'', ''old lithium''),
                       (''server/mods/ferritecore.jar'', ''PK'')],
               fetched = [(''https://cdn.modrinth.com/ferritecore.jar'',
                           ''server/mods/ferritecore.jar'')],
               success_count = 0, fail_count = 0, cache = None\<rparr>)
   \<and> path_exists
        [(''server/server.jar'', ''server bytes''),
         (''server/mods/lithium.jar'', ''old lithium''),
         (''server/mods/ferritecore.jar'', ''PK'')] ''server/mods/ferritecore.jar''"
  by code_simp

text \<open>
  C8, amended: when an exception is raised after the destination was opened for writing
  and a part was written, the download returns failure only with the destination removed:
  whenever \<open>_download_file\<close> returns, it returns \<open>False\<close> and the destination does not
  exist; and it does return whenever the removal of the file is possible (otherwise the
  exception of \<open>os.remove\<close> leaves the method, and nothing is returned). A body that
  ends early without an exception is not noticed: the download returns \<open>True\<close> and the
  destination holds the part that arrived.
\<close>

theorem C8_partial_download_removed:
  "(transfer_of env (fetched st) url destination = Partial content \<longrightarrow>
      (\<forall>ok st'. download_file env url destination st = Inr (ok, st') \<longrightarrow>
            \<not> ok \<and> \<not> path_exists (disk st') destination)
      \<and> (removable env destination \<longrightarrow>
            (\<exists>st'. download_file env url destination st = Inr (False, st'))))
   \<and> (transfer_of env (fetched st) url destination = Truncated content \<longrightarrow>
        (\<exists>st'. download_file env url destination st = Inr (True, st')
              \<and> map_of (disk st') destination = Some content))"
proof (intro conjI allI impI)
  fix ok st'
  assume p: "transfer_of env (fetched st) url destination = Partial content"
    and "download_file env url destination st = Inr (ok, st')"
  then have "download_handler env destination
      (st\<lparr>fetched := fetched st @ [(url, destination)],
          disk := AList.update destination content (disk st)\<rparr>) = Inr (ok, st')"
    by (simp add: download_file_def Let_def)
  from download_handler_absent[OF this]
  show "\<not> ok" and "\<not> path_exists (disk st') destination" by simp_all
next
  assume p: "transfer_of env (fetched st) url destination = Partial content"
    and "removable env destination"
  from download_handler_returns[OF this(2)] p
  show "\<exists>st'. download_file env url destination st = Inr (False, st')"
    by (simp add: download_file_def Let_def)
next
  assume "transfer_of env (fetched st) url destination = Truncated content"
  then show "\<exists>st'. download_file env url destination st = Inr (True, st')
              \<and> map_of (disk st') destination = Some content"
    by (simp add: download_file_def Let_def update_conv')
qed

theorem C8_partial_download_removed_witness:
  "transfer_of example_environment (fetched example_state) ''https://cdn.modrinth.com/sodium.jar''
      ''server/mods/client/sodium.jar'' = Partial ''PK''
   \<and> removable example_environment ''server/mods/client/sodium.jar''
   \<and> download_file example_environment ''https://cdn.modrinth.com/sodium.jar''
        ''server/mods/client/sodium.jar'' example_state
       = Inr (False, example_state\<lparr>fetched :=
                [(''https://cdn.modrinth.com/sodium.jar'', ''server/mods/client/sodium.jar'')]\<rparr>)
   \<and> \<not> path_exists
         (disk (example_state\<lparr>fetched :=
                [(''https://cdn.modrinth.com/sodium.jar'', ''server/mods/client/sodium.jar'')]\<rparr>))
         ''server/mods/client/sodium.jar''
   \<and> transfer_of example_environment (fetched example_state)
        ''https://cdn.modrinth.com/ferritecore.jar'' ''server/mods/ferritecore.jar''
       = Truncated ''PK''
   \<and> fst (projr (download_file example_environment ''https://cdn.modrinth.com/ferritecore.jar''
        ''server/mods/ferritecore.jar'' example_state))"
proof -
  have t: "transfer_of example_environment (fetched example_state)
      ''https://cdn.modrinth.com/sodium.jar'' ''server/mods/client/sodium.jar'' = Partial ''PK''"
    by (simp add: example_environment_def)
  have r: "removable example_environment ''server/mods/client/sodium.jar''"
    by (simp add: example_environment_def)
  have d: "download_file example_environment ''https://cdn.modrinth.com/sodium.jar''
        ''server/mods/client/sodium.jar'' example_state
       = Inr (False, example_state\<lparr>fetched :=
                [(''https://cdn.modrinth.com/sodium.jar'', ''server/mods/client/sodium.jar'')]\<rparr>)"
    by code_simp
  have n: "\<not> path_exists (disk example_state) ''server/mods/client/sodium.jar''"
    by (simp add: path_exists_def example_state_def)
  have u: "transfer_of example_environment (fetched example_state)
        ''https://cdn.modrinth.com/ferritecore.jar'' ''server/mods/ferritecore.jar''
       = Truncated ''PK''"
    by (simp add: example_environment_def)
  have v: "fst (projr (download_file example_environment ''https://cdn.modrinth.com/ferritecore.jar''
        ''server/mods/ferritecore.jar'' example_state))"
    using C8_partial_download_removed[where env = example_environment and st = example_state
        and url = "''https://cdn.modrinth.com/ferritecore.jar''"
        and destination = "''server/mods/ferritecore.jar''" and content = "''PK''"] u
    by auto
  from C8_partial_download_removed[where env = example_environment and st = example_state
        and url = "''https://cdn.modrinth.com/sodium.jar''"
        and destination = "''server/mods/client/sodium.jar''" and content = "''PK''"]
    t r d n u v
  show ?thesis by simp
qed

subsection \<open>Existing destinations\<close>

lemma remove_old_keeps_absent:
  "\<not> path_exists fs p \<Longrightarrow> \<not> path_exists (remove_old env ds fs) p"
  by (induction ds arbitrary: fs) (auto simp: path_exists_def delete_conv')

lemma remove_old_removed:
  "d \<in> set ds \<Longrightarrow> removable env d \<Longrightarrow> \<not> path_exists (remove_old env ds fs) d"
proof (induction ds arbitrary: fs)
  case Nil
  then show ?case by simp
next
  case (Cons a ds)
  show ?case
  proof (cases "d = a")
    case True
    with Cons.prems(2)
    have "\<not> path_exists (if path_exists fs a \<and> removable env a then AList.delete a fs else fs) d"
      by (simp add: path_exists_def delete_conv')
    from remove_old_keeps_absent[OF this] show ?thesis by simp
  next
    case False
    with Cons.prems(1) have "d \<in> set ds" by simp
    from Cons.IH[OF this Cons.prems(2)] show ?thesis by simp
  qed
qed

lemma remove_old_other:
  "p \<notin> set ds \<or> \<not> removable env p \<Longrightarrow> map_of (remove_old env ds fs) p = map_of fs p"
proof (induction ds arbitrary: fs)
  case Nil
  then show ?case by simp
next
  case (Cons a ds)
  from Cons.prems have rest: "p \<notin> set ds \<or> \<not> removable env p" by auto
  from Cons.prems
  have "map_of (if path_exists fs a \<and> removable env a then AList.delete a fs else fs) p = map_of fs p"
    by (auto simp: delete_conv')
  with Cons.IH[OF rest] show ?case by simp
qed

text \<open>
  C7, as stated, fails for mod entries: the branch for a mod with a list of destinations
  has no test for an existing file before the download. With \<open>lithium.jar\<close> on disk, the
  entry removes the file (the entry has a slug), downloads it again and writes the new
  content.
\<close>

theorem C7_mod_entry_counterexample:
  "path_exists (disk example_state) ''server/mods/lithium.jar''
   \<and> map_of (disk example_state) ''server/mods/lithium.jar'' = Some ''old lithium''
   \<and> download_all example_environment (Some ''1.21.4'') [(''mod_lithium'', lithium_item)]
        example_state
       = Inr \<lparr>disk = [(''server/server.jar'', ''server bytes''),
                      (''server/mods/lithium.jar'', ''new lithium''),
                      (''server/mods/client/lithium.jar'', ''new lithium'')],
              fetched = [(''https://cdn.modrinth.com/lithium.jar'', ''server/mods/lithium.jar'')],
              success_count = 1, fail_count = 0,
              cache = Some (Some ''1.21.4'', [(''mod_lithium'', lithium_item)])\<rparr>"
  by code_simp

text \<open>
  C7, amended: for an entry of the plan that is not a mod entry with a list of destinations
  (so for the server and the loader), a non-empty destination that exists when the entry is
  executed makes the entry satisfied: it is counted as a success, no download is performed,
  and the files are left as they are, unread. A mod entry with destinations is not skipped:
  whenever its execution returns, the download to its first destination has been performed,
  and it started from the disk on which, when the entry has a slug, every file at one of
  its destinations that could be removed is gone (a removal that fails is a warning), all
  other files being as before; the entry is counted as a success or a failure by the
  outcome of this download.
\<close>

theorem C7_existing_destination:
  "(\<not> (item_type item = Some ''mod'' \<and> item_destinations item \<noteq> None)
      \<and> item_destination item = Some d \<and> d \<noteq> [] \<and> path_exists (disk st) d
     \<longrightarrow> download_item env item st = Inr (st\<lparr>success_count := success_count st + 1\<rparr>))
   \<and> (item_type item = Some ''mod'' \<and> item_destinations item = Some (first_dest # others)
        \<and> download_item env item st = Inr st'
     \<longrightarrow> (\<exists>st1 ok st2.
            (truthy (item_slug item) \<longrightarrow>
               (\<forall>x\<in>set (first_dest # others). removable env x \<longrightarrow> \<not> path_exists (disk st1) x))
          \<and> (\<forall>p. p \<notin> set (first_dest # others) \<or> \<not> removable env p \<or> \<not> truthy (item_slug item)
                 \<longrightarrow> map_of (disk st1) p = map_of (disk st) p)
          \<and> fetched st1 = fetched st
          \<and> download_file env (item_url item) first_dest st1 = Inr (ok, st2)
          \<and> st' = (if ok
                    then st2\<lparr>disk := copy_to env first_dest others (disk st2),
                             success_count := success_count st2 + 1\<rparr>
                    else st2\<lparr>fail_count := fail_count st2 + 1\<rparr>)
          \<and> fetched st' = fetched st @ [(item_url item, first_dest)]))"
proof (intro conjI impI)
  assume "\<not> (item_type item = Some ''mod'' \<and> item_destinations item \<noteq> None)
      \<and> item_destination item = Some d \<and> d \<noteq> [] \<and> path_exists (disk st) d"
  then show "download_item env item st = Inr (st\<lparr>success_count := success_count st + 1\<rparr>)"
    by (auto simp: download_item_def)
next
  assume a: "item_type item = Some ''mod'' \<and> item_destinations item = Some (first_dest # others)
        \<and> download_item env item st = Inr st'"
  define st1 where "st1 = (if truthy (item_slug item)
      then st\<lparr>disk := remove_old env (first_dest # others) (disk st)\<rparr> else st)"
  have f1: "fetched st1 = fetched st" by (simp add: st1_def)
  have r1: "truthy (item_slug item) \<longrightarrow>
      (\<forall>x\<in>set (first_dest # others). removable env x \<longrightarrow> \<not> path_exists (disk st1) x)"
    using remove_old_removed[of _ "first_dest # others" env "disk st"]
    by (auto simp: st1_def simp del: remove_old.simps)
  have r2: "\<forall>p. p \<notin> set (first_dest # others) \<or> \<not> removable env p \<or> \<not> truthy (item_slug item)
                 \<longrightarrow> map_of (disk st1) p = map_of (disk st) p"
    using remove_old_other[of _ "first_dest # others" env "disk st"]
    by (auto simp: st1_def simp del: remove_old.simps)
  from a obtain ok st2 where d: "download_file env (item_url item) first_dest st1 = Inr (ok, st2)"
    and s: "st' = (if ok
                    then st2\<lparr>disk := copy_to env first_dest others (disk st2),
                             success_count := success_count st2 + 1\<rparr>
                    else st2\<lparr>fail_count := fail_count st2 + 1\<rparr>)"
    by (auto simp: download_item_def Let_def st1_def simp del: remove_old.simps
          split: sum.splits if_splits)
  from download_file_fetched[OF d] s f1
  have f: "fetched st' = fetched st @ [(item_url item, first_dest)]" by (simp split: if_splits)
  from r1 r2 f1 d s f
  show "\<exists>st1 ok st2.
            (truthy (item_slug item) \<longrightarrow>
               (\<forall>x\<in>set (first_dest # others). removable env x \<longrightarrow> \<not> path_exists (disk st1) x))
          \<and> (\<forall>p. p \<notin> set (first_dest # others) \<or> \<not> removable env p \<or> \<not> truthy (item_slug item)
                 \<longrightarrow> map_of (disk st1) p = map_of (disk st) p)
          \<and> fetched st1 = fetched st
          \<and> download_file env (item_url item) first_dest st1 = Inr (ok, st2)
          \<and> st' = (if ok
                    then st2\<lparr>disk := copy_to env first_dest others (disk st2),
                             success_count := success_count st2 + 1\<rparr>
                    else st2\<lparr>fail_count := fail_count st2 + 1\<rparr>)
          \<and> fetched st' = fetched st @ [(item_url item, first_dest)]"
    by blast
qed

theorem C7_existing_destination_witness:
  "item_type server_item = Some ''minecraft''
   \<and> item_destination server_item = Some ''server/server.jar''
   \<and> path_exists (disk example_state) ''server/server.jar''
   \<and> download_item example_environment server_item example_state
       = Inr (example_state\<lparr>success_count := 1\<rparr>)
   \<and> item_type lithium_item = Some ''mod''
   \<and> item_destinations lithium_item
       = Some [''server/mods/lithium.jar'', ''server/mods/client/lithium.jar'']
   \<and> path_exists (disk example_state) ''server/mods/lithium.jar''
   \<and> download_item example_environment lithium_item example_state
       = Inr \<lparr>disk = [(''server/server.jar'', ''server bytes''),
                      (''server/mods/lithium.jar'', ''new lithium''),
                      (''server/mods/client/lithium.jar'', ''new lithium'')],
              fetched = [(''https://cdn.modrinth.com/lithium.jar'', ''server/mods/lithium.jar'')],
              success_count = 1, fail_count = 0, cache = None\<rparr>"
proof -
  have s: "item_type server_item = Some ''minecraft''"
    "item_destination server_item = Some ''server/server.jar''"
    "item_destinations server_item = None"
    by (simp_all add: server_item_def)
  have e: "path_exists (disk example_state) ''server/server.jar''"
    "path_exists (disk example_state) ''server/mods/lithium.jar''"
    by (simp_all add: path_exists_def example_state_def)
  have c: "success_count example_state = 0" "fetched example_state = []"
    by (simp_all add: example_state_def)
  have m: "item_type lithium_item = Some ''mod''"
    "item_destinations lithium_item
       = Some [''server/mods/lithium.jar'', ''server/mods/client/lithium.jar'']"
    by (simp_all add: lithium_item_def)
  have d: "download_item example_environment lithium_item example_state
       = Inr \<lparr>disk = [(''server/server.jar'', ''server bytes''),
                      (''server/mods/lithium.jar'', ''new lithium''),
                      (''server/mods/client/lithium.jar'', ''new lithium'')],
              fetched = [(''https://cdn.modrinth.com/lithium.jar'', ''server/mods/lithium.jar'')],
              success_count = 1, fail_count = 0, cache = None\<rparr>"
    by code_simp
  have first: "download_item example_environment server_item example_state
       = Inr (example_state\<lparr>success_count := 1\<rparr>)"
    using C7_existing_destination[where item = server_item and d = "''server/server.jar''"
         and st = example_state and env = example_environment] s e c
    by simp
  note second = C7_existing_destination[where item = lithium_item and st = example_state
         and first_dest = "''server/mods/lithium.jar''"
         and others = "[''server/mods/client/lithium.jar'']"
         and env = example_environment]
  from second s e m d first show ?thesis by simp
qed

subsection \<open>Destinations by environment\<close>

lemma set_update_subset: "set (AList.update k v al) \<subseteq> insert (k, v) (set al)"
  by (induction al) auto

lemma shape_update:
  assumes "\<forall>(k, i)\<in>set d. mod_item_shape i" "mod_item_shape v"
  shows "\<forall>(k, i)\<in>set (AList.update key v d). mod_item_shape i"
  using assms set_update_subset[of key v d] by auto

lemma build_mod_cases:
  assumes "build_mod rs m d = Inr d'"
  shows "d' = d \<or>
    (\<exists>url filename dir slug.
       d' = AList.update (''mod_'' @ str_of_opt (mod_name m))
              \<lparr>item_type = Some ''mod'', item_name = mod_name m,
               item_version = mod_version_field m, item_url = url, item_filename = filename,
               item_target_dir = dir, item_destination = None,
               item_environment = Some (case mod_environment m of None \<Rightarrow> ''both'' | Some e \<Rightarrow> e),
               item_destinations =
                 Some (destinations_for (case mod_environment m of None \<Rightarrow> ''both'' | Some e \<Rightarrow> e)
                         dir filename),
               item_slug = slug\<rparr> d)"
  using assms
  by (auto simp: build_mod_def Let_def split: if_splits sum.splits option.splits prod.splits)

lemma build_mod_shape:
  assumes "build_mod rs m d = Inr d'" "\<forall>(k, i)\<in>set d. mod_item_shape i"
  shows "\<forall>(k, i)\<in>set d'. mod_item_shape i"
proof -
  from build_mod_cases[OF assms(1)] show ?thesis
  proof
    assume "d' = d"
    with assms(2) show ?thesis by simp
  next
    assume "\<exists>url filename dir slug.
       d' = AList.update (''mod_'' @ str_of_opt (mod_name m))
              \<lparr>item_type = Some ''mod'', item_name = mod_name m,
               item_version = mod_version_field m, item_url = url, item_filename = filename,
               item_target_dir = dir, item_destination = None,
               item_environment = Some (case mod_environment m of None \<Rightarrow> ''both'' | Some e \<Rightarrow> e),
               item_destinations =
                 Some (destinations_for (case mod_environment m of None \<Rightarrow> ''both'' | Some e \<Rightarrow> e)
                         dir filename),
               item_slug = slug\<rparr> d"
    then obtain v where v: "d' = AList.update (''mod_'' @ str_of_opt (mod_name m)) v d"
      and s: "mod_item_shape v"
      by (auto simp: mod_item_shape_def)
    from shape_update[OF assms(2) s] v show ?thesis by simp
  qed
qed

lemma build_mods_shape:
  "build_mods rs ms d = Inr d' \<Longrightarrow> \<forall>(k, i)\<in>set d. mod_item_shape i \<Longrightarrow>
   \<forall>(k, i)\<in>set d'. mod_item_shape i"
proof (induction ms arbitrary: d)
  case Nil
  then show ?case by simp
next
  case (Cons m ms)
  from Cons.prems(1) obtain d1 where b: "build_mod rs m d = Inr d1"
    and r: "build_mods rs ms d1 = Inr d'"
    by (auto split: sum.splits)
  from Cons.IH[OF r build_mod_shape[OF b Cons.prems(2)]] show ?case .
qed

lemma axis_item_shape:
  assumes "axis_item rs key display source version url filename d = Inr d'"
    "key \<noteq> ''mod''" "\<forall>(k, i)\<in>set d. mod_item_shape i"
  shows "\<forall>(k, i)\<in>set d'. mod_item_shape i"
proof -
  from assms(1) obtain v where v: "d' = AList.update key v d" and t: "item_type v = Some key"
    by (auto simp: axis_item_def split: option.splits)
  from t assms(2) have "mod_item_shape v" by (simp add: mod_item_shape_def)
  from shape_update[OF assms(3) this] v show ?thesis by simp
qed

lemma build_minecraft_shape:
  assumes "build_minecraft rs cfg d = Inr d'" "\<forall>(k, i)\<in>set d. mod_item_shape i"
  shows "\<forall>(k, i)\<in>set d'. mod_item_shape i"
proof (cases "cfg_minecraft cfg")
  case None
  with assms show ?thesis by (simp add: build_minecraft_def)
next
  case (Some mc)
  show ?thesis
  proof (cases "resolve_minecraft_url rs (axis_version mc)")
    case (Inl e)
    with Some assms(1) show ?thesis by (simp add: build_minecraft_def)
  next
    case (Inr r)
    show ?thesis
    proof (cases r)
      case None
      with Some Inr assms show ?thesis by (simp add: build_minecraft_def)
    next
      case (Some uf)
      obtain url filename where uf: "uf = (url, filename)" by (cases uf)
      from assms(1) \<open>cfg_minecraft cfg = Some mc\<close> Inr Some uf
      have a: "axis_item rs ''minecraft'' ''Minecraft Server''
                 (case axis_source mc of None \<Rightarrow> ''mojang'' | Some s \<Rightarrow> s)
                 (axis_version mc) url filename d = Inr d'"
        by (simp add: build_minecraft_def)
      have "''minecraft'' \<noteq> ''mod''" by simp
      from axis_item_shape[OF a this assms(2)] show ?thesis .
    qed
  qed
qed

lemma build_fabric_shape:
  assumes "build_fabric rs cfg d = Inr d'" "\<forall>(k, i)\<in>set d. mod_item_shape i"
  shows "\<forall>(k, i)\<in>set d'. mod_item_shape i"
proof (cases "cfg_fabric cfg")
  case None
  with assms show ?thesis by (simp add: build_fabric_def)
next
  case (Some fc)
  define mcv where "mcv = (case cfg_minecraft cfg of None \<Rightarrow> None | Some mc \<Rightarrow> axis_version mc)"
  show ?thesis
  proof (cases "resolve_fabric_url rs mcv (axis_version fc)")
    case (Inl e)
    with Some assms(1) show ?thesis by (simp add: build_fabric_def mcv_def)
  next
    case (Inr r)
    show ?thesis
    proof (cases r)
      case None
      with Some Inr assms show ?thesis by (simp add: build_fabric_def mcv_def)
    next
      case (Some uf)
      obtain url filename where uf: "uf = (url, filename)" by (cases uf)
      from assms(1) \<open>cfg_fabric cfg = Some fc\<close> Inr Some uf
      have a: "axis_item rs ''fabric'' ''Fabric Loader''
                 (case axis_source fc of None \<Rightarrow> ''fabric'' | Some s \<Rightarrow> s)
                 (axis_version fc) url filename d = Inr d'"
        by (simp add: build_fabric_def mcv_def)
      have "''fabric'' \<noteq> ''mod''" by simp
      from axis_item_shape[OF a this assms(2)] show ?thesis .
    qed
  qed
qed

lemma build_download_list_shape:
  assumes "build_download_list rs cfg = Inr plan"
  shows "\<forall>(k, i)\<in>set plan. mod_item_shape i"
proof -
  from assms obtain d1 d2 where 1: "build_minecraft rs cfg [] = Inr d1"
    and 2: "build_fabric rs cfg d1 = Inr d2" and 3: "build_mods rs (cfg_mods cfg) d2 = Inr plan"
    by (auto simp: build_download_list_def split: sum.splits)
  have s0: "\<forall>(k, i)\<in>set ([] :: plan). mod_item_shape i" by simp
  note s1 = build_minecraft_shape[OF 1 s0]
  note s2 = build_fabric_shape[OF 2 s1]
  from build_mods_shape[OF 3 s2] show ?thesis .
qed

lemma destinations_for_simps:
  "destinations_for ''both'' dir fn = [path_join dir fn, path_join (path_join dir ''client'') fn]"
  "destinations_for ''server'' dir fn = [path_join dir fn]"
  "destinations_for ''client'' dir fn = [path_join (path_join dir ''client'') fn]"
  by (simp_all add: destinations_for_def)

lemma destinations_for_empty:
  "destinations_for e dir fn = [] \<longleftrightarrow> e \<notin> set [''client'', ''server'', ''both'']"
  by (auto simp: destinations_for_def)

lemma download_item_no_destination:
  "item_type item = Some ''mod'' \<Longrightarrow> item_destinations item = Some [] \<Longrightarrow>
   download_item env item st = Inl IndexError"
  by (simp add: download_item_def Let_def)

text \<open>
  C9: every mod entry of a built plan has, for the environment \<open>both\<close>, exactly two
  destinations, the path in the target directory and the path in its \<open>client\<close>
  subdirectory, in this order; for \<open>server\<close> the first of them only, and for \<open>client\<close>
  the second only.
\<close>

theorem C9_destinations_by_environment:
  assumes "build_download_list rs cfg = Inr plan" "(key, item) \<in> set plan"
    "item_type item = Some ''mod''"
  shows "(item_environment item = Some ''both'' \<longrightarrow>
            item_destinations item =
              Some [path_join (item_target_dir item) (item_filename item),
                    path_join (path_join (item_target_dir item) ''client'') (item_filename item)])
       \<and> (item_environment item = Some ''server'' \<longrightarrow>
            item_destinations item = Some [path_join (item_target_dir item) (item_filename item)])
       \<and> (item_environment item = Some ''client'' \<longrightarrow>
            item_destinations item =
              Some [path_join (path_join (item_target_dir item) ''client'') (item_filename item)])"
proof -
  from build_download_list_shape[OF assms(1)] assms(2) have "mod_item_shape item" by auto
  with assms(3) obtain e where "item_environment item = Some e"
    "item_destinations item = Some (destinations_for e (item_target_dir item) (item_filename item))"
    by (auto simp: mod_item_shape_def)
  then show ?thesis by (auto simp: destinations_for_simps)
qed

theorem C9_destinations_by_environment_witness:
  "build_download_list example_resolvers example_config = Inr example_plan
   \<and> item_environment lithium_item = Some ''both''
   \<and> item_destinations lithium_item
       = Some [''server/mods/lithium.jar'', ''server/mods/client/lithium.jar'']
   \<and> item_environment ferritecore_item = Some ''server''
   \<and> item_destinations ferritecore_item = Some [''server/mods/ferritecore.jar'']
   \<and> item_environment sodium_item = Some ''client''
   \<and> item_destinations sodium_item = Some [''server/mods/client/sodium.jar'']"
proof -
  have b: "build_download_list example_resolvers example_config = Inr example_plan"
    by code_simp
  have i: "(''mod_lithium'', lithium_item) \<in> set example_plan"
    "(''mod_ferritecore'', ferritecore_item) \<in> set example_plan"
    "(''mod_sodium'', sodium_item) \<in> set example_plan"
    by (simp_all add: example_plan_def)
  have t: "item_type lithium_item = Some ''mod''" "item_type ferritecore_item = Some ''mod''"
    "item_type sodium_item = Some ''mod''"
    by (simp_all add: lithium_item_def ferritecore_item_def sodium_item_def)
  have e: "item_environment lithium_item = Some ''both''"
    "item_environment ferritecore_item = Some ''server''"
    "item_environment sodium_item = Some ''client''"
    by (simp_all add: lithium_item_def ferritecore_item_def sodium_item_def)
  have p: "path_join ''server/mods'' ''lithium.jar'' = ''server/mods/lithium.jar''"
    "path_join (path_join ''server/mods'' ''client'') ''lithium.jar''
       = ''server/mods/client/lithium.jar''"
    "path_join ''server/mods'' ''ferritecore.jar'' = ''server/mods/ferritecore.jar''"
    "path_join (path_join ''server/mods'' ''client'') ''sodium.jar''
       = ''server/mods/client/sodium.jar''"
    by (simp_all add: path_join_def)
  have f: "item_target_dir lithium_item = ''server/mods''" "item_filename lithium_item = ''lithium.jar''"
    "item_target_dir ferritecore_item = ''server/mods''"
    "item_filename ferritecore_item = ''ferritecore.jar''"
    "item_target_dir sodium_item = ''server/mods''" "item_filename sodium_item = ''sodium.jar''"
    by (simp_all add: lithium_item_def ferritecore_item_def sodium_item_def)
  from C9_destinations_by_environment[OF b i(1) t(1)]
       C9_destinations_by_environment[OF b i(2) t(2)]
       C9_destinations_by_environment[OF b i(3) t(3)] b e
  show ?thesis by (simp add: p f)
qed

text \<open>
  C10: a mod entry of a built plan has an environment and a list of destinations, and the
  list is non-empty exactly when the environment is \<open>client\<close>, \<open>server\<close> or \<open>both\<close>;
  an entry with no destination makes its execution raise IndexError at \<open>destinations[0]\<close>,
  before any download. A mod without the key \<open>environment\<close>, when its entry is written,
  has the environment \<open>both\<close> and two destinations.
\<close>

theorem C10_unrecognized_environment:
  assumes "build_download_list rs cfg = Inr plan" "(key, item) \<in> set plan"
    "item_type item = Some ''mod''"
  shows "(\<exists>e ds. item_environment item = Some e \<and> item_destinations item = Some ds
            \<and> (ds \<noteq> [] \<longleftrightarrow> e \<in> set [''client'', ''server'', ''both''])
            \<and> (ds = [] \<longrightarrow> download_item env item st = Inl IndexError))
       \<and> (\<forall>m d d'. mod_environment m = None \<and> build_mod rs m d = Inr d' \<and> d' \<noteq> d \<longrightarrow>
             (\<exists>i. map_of d' (''mod_'' @ str_of_opt (mod_name m)) = Some i
                 \<and> item_environment i = Some ''both''
                 \<and> length (the (item_destinations i)) = 2))"
proof
  from build_download_list_shape[OF assms(1)] assms(2) have "mod_item_shape item" by auto
  with assms(3) obtain e where e: "item_environment item = Some e"
    "item_destinations item = Some (destinations_for e (item_target_dir item) (item_filename item))"
    by (auto simp: mod_item_shape_def)
  show "\<exists>e ds. item_environment item = Some e \<and> item_destinations item = Some ds
            \<and> (ds \<noteq> [] \<longleftrightarrow> e \<in> set [''client'', ''server'', ''both''])
            \<and> (ds = [] \<longrightarrow> download_item env item st = Inl IndexError)"
    using e assms(3) destinations_for_empty[of e "item_target_dir item" "item_filename item"]
      download_item_no_destination[of item env st]
    by auto
next
  show "\<forall>m d d'. mod_environment m = None \<and> build_mod rs m d = Inr d' \<and> d' \<noteq> d \<longrightarrow>
             (\<exists>i. map_of d' (''mod_'' @ str_of_opt (mod_name m)) = Some i
                 \<and> item_environment i = Some ''both''
                 \<and> length (the (item_destinations i)) = 2)"
  proof (intro allI impI)
    fix m d d'
    assume a: "mod_environment m = None \<and> build_mod rs m d = Inr d' \<and> d' \<noteq> d"
    with build_mod_cases[of rs m d d'] show "\<exists>i. map_of d' (''mod_'' @ str_of_opt (mod_name m)) = Some i
                 \<and> item_environment i = Some ''both''
                 \<and> length (the (item_destinations i)) = 2"
      by (auto simp: update_conv' destinations_for_simps)
  qed
qed

theorem C10_unrecognized_environment_witness:
  "build_download_list example_resolvers example_config = Inr example_plan
   \<and> (''mod_krypton'', krypton_item) \<in> set example_plan
   \<and> item_environment krypton_item = Some ''servre''
   \<and> item_destinations krypton_item = Some []
   \<and> download_item example_environment krypton_item example_state = Inl IndexError
   \<and> mod_environment (blank_mod\<lparr>mod_name := Some ''lithium'', mod_version_field := Some ''0.14.3''\<rparr>)
       = None
   \<and> build_mod example_resolvers
        (blank_mod\<lparr>mod_name := Some ''lithium'', mod_version_field := Some ''0.14.3''\<rparr>) []
       = Inr [(''mod_lithium'', lithium_item)]"
proof -
  have b: "build_download_list example_resolvers example_config = Inr example_plan"
    by code_simp
  have i: "(''mod_krypton'', krypton_item) \<in> set example_plan"
    by (simp add: example_plan_def)
  have t: "item_type krypton_item = Some ''mod''" "item_environment krypton_item = Some ''servre''"
    "item_destinations krypton_item = Some []"
    by (simp_all add: krypton_item_def)
  have m: "mod_environment (blank_mod\<lparr>mod_name := Some ''lithium'', mod_version_field := Some ''0.14.3''\<rparr>)
       = None"
    by (simp add: blank_mod_def)
  have l: "build_mod example_resolvers
        (blank_mod\<lparr>mod_name := Some ''lithium'', mod_version_field := Some ''0.14.3''\<rparr>) []
       = Inr [(''mod_lithium'', lithium_item)]"
    by code_simp
  from C10_unrecognized_environment[OF b i t(1), of example_environment example_state]
  have "download_item example_environment krypton_item example_state = Inl IndexError"
    using t by simp
  with b i t m l show ?thesis by simp
qed

end
